theory Spec2Isabelle
  imports Complex_Main "HOL-Library.Multiset"
begin

section \<open>Python values and errors\<close>

text \<open>
  The module \<^verbatim>\<open>fastai/vision/transform.py\<close> is embedded function by function.
  Tensor elements and Python floats are modelled as exact reals: rounding of 32-bit floats,
  infinities and NaN are outside the model.  Every \<^verbatim>\<open>raise\<close> or failing
  \<^verbatim>\<open>assert\<close> of the source is the left summand of the result.
\<close>

datatype error =
    AssertionError string
  | TypeError
  | IndexError
  | RuntimeError
  | ZeroDivisionError

text \<open>
  The values that travel through keyword arguments and through \<^verbatim>\<open>listify\<close>.
  A tensor value carries its shape and its elements in row-major order.
\<close>

datatype pyval =
    PNone
  | PBool bool
  | PInt int
  | PFloat real
  | PStr string
  | PList "pyval list"
  | PTensor "nat list" "real list"

type_synonym kwargs = "(string \<times> pyval) list"

subsection \<open>Dictionaries in insertion order\<close>

text \<open>\<^verbatim>\<open>d[k] = v\<close>: an existing key keeps its position, a new key goes last.\<close>

fun dict_set :: "('k \<times> 'v) list \<Rightarrow> 'k \<Rightarrow> 'v \<Rightarrow> ('k \<times> 'v) list" where
  "dict_set [] k v = [(k, v)]"
| "dict_set ((k', v') # d) k v = (if k' = k then (k, v) # d else (k', v') # dict_set d k v)"

text \<open>\<^verbatim>\<open>{**a, **b}\<close>: the items of \<open>b\<close> are stored into \<open>a\<close> one after the other.\<close>

fun dict_merge :: "('k \<times> 'v) list \<Rightarrow> ('k \<times> 'v) list \<Rightarrow> ('k \<times> 'v) list" where
  "dict_merge a [] = a"
| "dict_merge a ((k, v) # b) = dict_merge (dict_set a k v) b"

definition dict_has :: "('k \<times> 'v) list \<Rightarrow> 'k \<Rightarrow> bool" where
  "dict_has d k = (k \<in> fst ` set d)"

subsection \<open>Sequencing computations that may raise\<close>

fun bindE :: "'e + 'a \<Rightarrow> ('a \<Rightarrow> 'e + 'b) \<Rightarrow> 'e + 'b" where
  "bindE (Inl e) f = Inl e"
| "bindE (Inr a) f = f a"

section \<open>The random parameter resolver\<close>

subsection \<open>\<^verbatim>\<open>listify\<close>\<close>

text \<open>\<^verbatim>\<open>isinstance(p, Iterable)\<close> for the values of the model.\<close>

fun is_Iterable :: "pyval \<Rightarrow> bool" where
  "is_Iterable (PStr s) = True"
| "is_Iterable (PList xs) = True"
| "is_Iterable (PTensor sh d) = True"
| "is_Iterable v = False"

text \<open>\<^verbatim>\<open>len(v)\<close>; a value without a length (and a 0-dimensional tensor) raises.\<close>

fun py_len :: "pyval \<Rightarrow> error + int" where
  "py_len (PStr s) = Inr (int (length s))"
| "py_len (PList xs) = Inr (int (length xs))"
| "py_len (PTensor [] d) = Inl TypeError"
| "py_len (PTensor (n # sh) d) = Inr (int n)"
| "py_len v = Inl TypeError"

text \<open>
  \<^verbatim>\<open>p * n\<close> for an integer \<open>n\<close>: a list or a string is repeated (not at all when
  \<open>n \<le> 0\<close>), a tensor is scaled.
\<close>

fun py_mul :: "pyval \<Rightarrow> int \<Rightarrow> pyval" where
  "py_mul (PList xs) n = PList (concat (replicate (nat n) xs))"
| "py_mul (PStr s) n = PStr (concat (replicate (nat n) s))"
| "py_mul (PTensor sh d) n = PTensor sh (map (\<lambda>x. x * of_int n) d)"
| "py_mul v n = v"

fun chunks :: "nat \<Rightarrow> nat \<Rightarrow> 'a list \<Rightarrow> 'a list list" where
  "chunks 0 k xs = []"
| "chunks (Suc n) k xs = take k xs # chunks n k (drop k xs)"

text \<open>\<^verbatim>\<open>list(p)\<close> for an iterable \<open>p\<close>.\<close>

fun py_list :: "pyval \<Rightarrow> pyval list" where
  "py_list (PList xs) = xs"
| "py_list (PStr s) = map (\<lambda>c. PStr [c]) s"
| "py_list (PTensor (n # sh) d) = map (PTensor sh) (chunks n (prod_list sh) d)"
| "py_list v = []"

text \<open>
  \<^verbatim>\<open>
  def listify(p=None, q=None):
      "Makes `p` same length as `q`"
      if p is None: p=[]
      elif not isinstance(p, Iterable): p=[p]
      n = q if type(q)==int else len(p) if q is None else len(q)
      if len(p)==1: p = p * n
      assert len(p)==n, f'List len mismatch ({len(p)} vs {n})'
      return list(p)
  \<close>
\<close>

definition listify_target :: "pyval \<Rightarrow> pyval \<Rightarrow> error + int" where
  "listify_target p1 q =
     (case q of PInt k \<Rightarrow> Inr k | PNone \<Rightarrow> py_len p1 | _ \<Rightarrow> py_len q)"

definition listify :: "pyval \<Rightarrow> pyval \<Rightarrow> error + pyval list" where
  "listify p q =
     (let p1 = (if p = PNone then PList []
                else if \<not> is_Iterable p then PList [p]
                else p)
      in bindE (listify_target p1 q) (\<lambda>n.
         bindE (py_len p1) (\<lambda>l.
           let p2 = (if l = 1 then py_mul p1 n else p1)
           in bindE (py_len p2) (\<lambda>l2.
                if l2 = n then Inr (py_list p2)
                else Inl (AssertionError ''List len mismatch'')))))"

subsection \<open>The random sources\<close>

text \<open>
  The process-wide generators of Python's \<^verbatim>\<open>random\<close> module and of torch are
  explicit: each is the sequence of the numbers it will hand out, every one a draw of
  \<^verbatim>\<open>random()\<close>, that is, a number in \<open>[0, 1)\<close>.
\<close>

record rng =
  py_source :: "nat \<Rightarrow> real"
  torch_source :: "nat \<Rightarrow> real"

definition in_unit :: "(nat \<Rightarrow> real) \<Rightarrow> bool" where
  "in_unit f = (\<forall>n. 0 \<le> f n \<and> f n < 1)"

definition random_random :: "rng \<Rightarrow> real \<times> rng" where
  "random_random g = (py_source g 0, g\<lparr>py_source := (\<lambda>n. py_source g (Suc n))\<rparr>)"

definition torch_draws :: "nat \<Rightarrow> rng \<Rightarrow> real list \<times> rng" where
  "torch_draws n g =
     (map (torch_source g) [0..<n], g\<lparr>torch_source := (\<lambda>k. torch_source g (n + k))\<rparr>)"

fun as_number :: "pyval \<Rightarrow> error + real" where
  "as_number (PBool b) = Inr (of_bool b)"
| "as_number (PInt i) = Inr (of_int i)"
| "as_number (PFloat x) = Inr x"
| "as_number v = Inl TypeError"

text \<open>
  The dimensions handed to \<^verbatim>\<open>torch.FloatTensor(*sizes)\<close>: non-negative integers.
  (With other arguments the constructor builds a tensor from data or raises; the model
  raises.)  Without any argument the tensor is empty.
\<close>

fun as_sizes :: "pyval list \<Rightarrow> error + nat list" where
  "as_sizes [] = Inr []"
| "as_sizes (PInt n # vs) =
     (if n < 0 then Inl RuntimeError
      else bindE (as_sizes vs) (\<lambda>ns. Inr (nat n # ns)))"
| "as_sizes (v # vs) = Inl TypeError"

definition FloatTensor_shape :: "nat list \<Rightarrow> nat list" where
  "FloatTensor_shape ns = (if ns = [] then [0] else ns)"

subsection \<open>\<^verbatim>\<open>uniform\<close>, \<^verbatim>\<open>log_uniform\<close>, \<^verbatim>\<open>rand_bool\<close>\<close>

text \<open>
  \<^verbatim>\<open>
  def uniform(low, high, size=None):
      return random.uniform(low,high) if size is None
             else torch.FloatTensor(*listify(size)).uniform_(low,high)
  \<close>
  where \<^verbatim>\<open>random.uniform(a, b)\<close> is \<^verbatim>\<open>a + (b-a) * self.random()\<close>.
\<close>

definition uniform :: "pyval \<Rightarrow> pyval \<Rightarrow> pyval \<Rightarrow> rng \<Rightarrow> error + pyval \<times> rng" where
  "uniform low high size_arg g =
     (if size_arg = PNone then
        bindE (as_number low) (\<lambda>a.
        bindE (as_number high) (\<lambda>b.
          let (u, g') = random_random g in Inr (PFloat (a + (b - a) * u), g')))
      else
        bindE (listify size_arg PNone) (\<lambda>sizes.
        bindE (as_sizes sizes) (\<lambda>ns.
        bindE (as_number low) (\<lambda>a.
        bindE (as_number high) (\<lambda>b.
          let sh = FloatTensor_shape ns;
              (us, g') = torch_draws (prod_list sh) g
          in Inr (PTensor sh (map (\<lambda>u. a + (b - a) * u) us), g'))))))"

text \<open>
  \<^verbatim>\<open>
  def log_uniform(low, high, size=None):
      res = uniform(log(low), log(high), size)
      return exp(res) if size is None else res.exp_()
  \<close>
\<close>

fun exp_value :: "pyval \<Rightarrow> error + pyval" where
  "exp_value (PFloat r) = Inr (PFloat (exp r))"
| "exp_value (PTensor sh d) = Inr (PTensor sh (map exp d))"
| "exp_value v = Inl TypeError"

definition log_uniform :: "pyval \<Rightarrow> pyval \<Rightarrow> pyval \<Rightarrow> rng \<Rightarrow> error + pyval \<times> rng" where
  "log_uniform low high size_arg g =
     bindE (as_number low) (\<lambda>a.
     bindE (as_number high) (\<lambda>b.
     bindE (uniform (PFloat (ln a)) (PFloat (ln b)) size_arg g) (\<lambda>(res, g').
     bindE (exp_value res) (\<lambda>v. Inr (v, g')))))"

text \<open>
  \<^verbatim>\<open>
  def rand_bool(p, size=None):
      return uniform(0,1,size)<p
  \<close>
  On a tensor the comparison is elementwise.
\<close>

fun less_value :: "pyval \<Rightarrow> real \<Rightarrow> error + pyval" where
  "less_value (PFloat u) b = Inr (PBool (u < b))"
| "less_value (PTensor sh d) b = Inr (PTensor sh (map (\<lambda>u. of_bool (u < b)) d))"
| "less_value v b = Inl TypeError"

definition rand_bool :: "pyval \<Rightarrow> pyval \<Rightarrow> rng \<Rightarrow> error + pyval \<times> rng" where
  "rand_bool pr size_arg g =
     bindE (uniform (PInt 0) (PInt 1) size_arg g) (\<lambda>(u, g').
     bindE (as_number pr) (\<lambda>b.
     bindE (less_value u b) (\<lambda>v. Inr (v, g'))))"

text \<open>
  The generators that annotate the parameters of the transform functions, and a call of
  one with positional arguments (each takes \<open>size\<close> last, optionally).
\<close>

datatype rand_func = Uniform | LogUniform | RandBool

fun call_rand_func :: "rand_func \<Rightarrow> pyval list \<Rightarrow> rng \<Rightarrow> error + pyval \<times> rng" where
  "call_rand_func Uniform [lo, hi] g = uniform lo hi PNone g"
| "call_rand_func Uniform [lo, hi, sz] g = uniform lo hi sz g"
| "call_rand_func LogUniform [lo, hi] g = log_uniform lo hi PNone g"
| "call_rand_func LogUniform [lo, hi, sz] g = log_uniform lo hi sz g"
| "call_rand_func RandBool [pr] g = rand_bool pr PNone g"
| "call_rand_func RandBool [pr, sz] g = rand_bool pr sz g"
| "call_rand_func f args g = Inl TypeError"

section \<open>The resampler\<close>

text \<open>
  A pixel array (channels, height, width) is a list of channels, each a list of rows.  A
  flow field (height, width, 2) is a list of rows of coordinate pairs \<open>(x, y)\<close>; the batch
  dimension of length one that the source adds and drops again is left out.  A dimension
  that follows an empty one reads as \<open>0\<close>.  An affine matrix is three rows of three.
\<close>

type_synonym tensor = "real list list list"
type_synonym flowfield = "(real \<times> real) list list"
type_synonym vec3 = "real \<times> real \<times> real"
type_synonym mat3 = "vec3 \<times> vec3 \<times> vec3"

definition shape :: "tensor \<Rightarrow> nat \<times> nat \<times> nat" where
  "shape t =
     (length t,
      (case t of [] \<Rightarrow> 0 | c # _ \<Rightarrow> length c),
      (case t of [] \<Rightarrow> 0 | c # _ \<Rightarrow> (case c of [] \<Rightarrow> 0 | r # _ \<Rightarrow> length r)))"

text \<open>
  \<^verbatim>\<open>torch.round\<close> rounds a tie to the even neighbour.  (Releases of torch before 1.1
  round a tie away from zero; no concrete result stated in this theory depends on which.)
\<close>

definition round_half_even :: "real \<Rightarrow> int" where
  "round_half_even x =
     (let f = \<lfloor>x\<rfloor>; d = x - of_int f
      in if d < 1 / 2 then f
         else if 1 / 2 < d then f + 1
         else if even f then f else f + 1)"

text \<open>\<^verbatim>\<open>clamp_(lo, hi)\<close> is \<open>min (max x lo) hi\<close>, also when \<open>hi < lo\<close>.\<close>

definition clamp :: "int \<Rightarrow> int \<Rightarrow> int \<Rightarrow> int" where
  "clamp lo hi x = min (max x lo) hi"

text \<open>
  \<^verbatim>\<open>
  def grid_sample_nearest(input, coords, padding_mode='zeros'):
      if padding_mode=='border': coords.clamp(-1,1)
      bs,ch,h,w = input.size()
      sz = tensor([w,h]).float()[None,None]
      coords.add_(1).mul_(sz/2)
      coords = coords[0].round_().long()
      if padding_mode=='zeros':
          mask = (coords[...,0] < 0) + (coords[...,1] < 0) + (coords[...,0] >= w) + (coords[...,1] >= h)
          mask.clamp_(0,1)
      coords[...,0].clamp_(0,w-1)
      coords[...,1].clamp_(0,h-1)
      result = input[...,coords[...,1],coords[...,0]]
      if padding_mode=='zeros': result[...,mask] = result[...,mask].zero_()
      return result
  \<close>
  \<^verbatim>\<open>coords.clamp(-1,1)\<close> returns a new tensor that is dropped, so the border branch
  changes nothing.  Indexing a dimension of length \<open>0\<close> with the clamped index \<open>-1\<close>
  raises.
\<close>

definition pixel_index :: "nat \<Rightarrow> nat \<Rightarrow> real \<times> real \<Rightarrow> int \<times> int" where
  "pixel_index h w c =
     (round_half_even ((fst c + 1) * (real w / 2)), round_half_even ((snd c + 1) * (real h / 2)))"

definition outside :: "nat \<Rightarrow> nat \<Rightarrow> int \<times> int \<Rightarrow> bool" where
  "outside h w c = (fst c < 0 \<or> snd c < 0 \<or> int w \<le> fst c \<or> int h \<le> snd c)"

definition lookup_pixel :: "pyval \<Rightarrow> nat \<Rightarrow> nat \<Rightarrow> real list list \<Rightarrow> int \<times> int \<Rightarrow> real" where
  "lookup_pixel padding_mode h w chan c =
     (if padding_mode = PStr ''zeros'' \<and> outside h w c then 0
      else chan ! nat (clamp 0 (int h - 1) (snd c)) ! nat (clamp 0 (int w - 1) (fst c)))"

definition grid_sample_nearest :: "tensor \<Rightarrow> flowfield \<Rightarrow> pyval \<Rightarrow> error + tensor" where
  "grid_sample_nearest input coords padding_mode =
     (case shape input of (ch, h, w) \<Rightarrow>
        if (h = 0 \<or> w = 0) \<and> concat coords \<noteq> [] then Inl IndexError
        else Inr (map (\<lambda>chan.
                    map (map (\<lambda>c. lookup_pixel padding_mode h w chan (pixel_index h w c))) coords)
                  input))"

text \<open>
  \<^verbatim>\<open>
  def grid_sample(x, coords, mode='bilinear', padding_mode='reflect'):
      if padding_mode=='reflect': padding_mode='reflection'
      if mode=='nearest': return grid_sample_nearest(x[None], coords, padding_mode)[0]
      return F.grid_sample(x[None], coords, mode=mode, padding_mode=padding_mode)[0]
  \<close>
  torch's \<^verbatim>\<open>F.grid_sample\<close> is a parameter \<open>F\<close> of the model.
\<close>

type_synonym torch_grid_sample = "tensor \<Rightarrow> flowfield \<Rightarrow> pyval \<Rightarrow> pyval \<Rightarrow> error + tensor"

definition grid_sample :: "torch_grid_sample \<Rightarrow> tensor \<Rightarrow> flowfield \<Rightarrow> pyval \<Rightarrow> pyval \<Rightarrow> error + tensor" where
  "grid_sample F x coords mode padding_mode =
     (let padding_mode' = (if padding_mode = PStr ''reflect'' then PStr ''reflection''
                           else padding_mode)
      in if mode = PStr ''nearest'' then grid_sample_nearest x coords padding_mode'
         else F x coords mode padding_mode')"

text \<open>
  The call \<^verbatim>\<open>grid_sample(x, coords, **kwargs)\<close>: a keyword that is not a parameter
  of \<^verbatim>\<open>grid_sample\<close>, or that names one already given by position, raises.
\<close>

definition kw_get :: "kwargs \<Rightarrow> string \<Rightarrow> pyval \<Rightarrow> pyval" where
  "kw_get kw k d = (case map_of kw k of None \<Rightarrow> d | Some v \<Rightarrow> v)"

definition grid_sample_kw :: "torch_grid_sample \<Rightarrow> tensor \<Rightarrow> flowfield \<Rightarrow> kwargs \<Rightarrow> error + tensor" where
  "grid_sample_kw F x coords kw =
     (if \<exists>k \<in> set (map fst kw). k \<noteq> ''mode'' \<and> k \<noteq> ''padding_mode'' then Inl TypeError
      else grid_sample F x coords (kw_get kw ''mode'' (PStr ''bilinear''))
             (kw_get kw ''padding_mode'' (PStr ''reflect'')))"

text \<open>
  \<^verbatim>\<open>
  def affine_grid(size):
      size = ((1,)+size)
      N, C, H, W = size
      grid = FloatTensor(N, H, W, 2)
      linear_points = torch.linspace(-1, 1, W) if W > 1 else tensor([-1])
      grid[:, :, :, 0] = torch.ger(torch.ones(H), linear_points).expand_as(grid[:, :, :, 0])
      linear_points = torch.linspace(-1, 1, H) if H > 1 else tensor([-1])
      grid[:, :, :, 1] = torch.ger(linear_points, torch.ones(W)).expand_as(grid[:, :, :, 1])
      return grid
  \<close>
\<close>

definition linear_points :: "nat \<Rightarrow> real list" where
  "linear_points n =
     (if 1 < n then map (\<lambda>k. - 1 + 2 * real k / real (n - 1)) [0..<n] else [- 1])"

definition affine_grid :: "nat \<times> nat \<times> nat \<Rightarrow> flowfield" where
  "affine_grid sz =
     (case sz of (C, H, W) \<Rightarrow>
        map (\<lambda>i. map (\<lambda>j. (linear_points W ! (if 1 < W then j else 0),
                            linear_points H ! (if 1 < H then i else 0)))
                   [0..<W])
            [0..<H])"

text \<open>
  \<^verbatim>\<open>
  def affine_mult(c,m):
      if m is None: return c
      size = c.size()
      c = c.view(-1,2)
      c = torch.addmm(m[:2,2], c,  m[:2,:2].t())
      return c.view(size)
  \<close>
\<close>

definition affine_point :: "mat3 \<Rightarrow> real \<times> real \<Rightarrow> real \<times> real" where
  "affine_point m c =
     (case m of ((a00, a01, a02), (a10, a11, a12), r2) \<Rightarrow>
        (a02 + (fst c * a00 + snd c * a01), a12 + (fst c * a10 + snd c * a11)))"

definition affine_mult :: "flowfield \<Rightarrow> mat3 option \<Rightarrow> flowfield" where
  "affine_mult c m = (case m of None \<Rightarrow> c | Some a \<Rightarrow> map (map (affine_point a)) c)"

text \<open>\<^verbatim>\<open>torch.eye(3)\<close> and the matrix product \<^verbatim>\<open>a @ b\<close>.\<close>

definition eye3 :: mat3 where
  "eye3 = ((1, 0, 0), (0, 1, 0), (0, 0, 1))"

definition row_times :: "vec3 \<Rightarrow> mat3 \<Rightarrow> vec3" where
  "row_times r b =
     (case r of (x, y, z) \<Rightarrow>
      case b of ((b00, b01, b02), (b10, b11, b12), (b20, b21, b22)) \<Rightarrow>
        (x * b00 + y * b10 + z * b20, x * b01 + y * b11 + z * b21, x * b02 + y * b12 + z * b22))"

definition matmul :: "mat3 \<Rightarrow> mat3 \<Rightarrow> mat3" where
  "matmul a b = (case a of (r0, r1, r2) \<Rightarrow> (row_times r0 b, row_times r1 b, row_times r2 b))"

text \<open>\<^verbatim>\<open>sigmoid_\<close> and \<^verbatim>\<open>logit_\<close> (\<^verbatim>\<open>(x.reciprocal_().sub_(1)).log_().neg_()\<close>), elementwise.\<close>

definition sigmoid :: "real \<Rightarrow> real" where
  "sigmoid x = 1 / (1 + exp (- x))"

definition logit :: "real \<Rightarrow> real" where
  "logit x = - ln (1 / x - 1)"

definition map_tensor :: "(real \<Rightarrow> real) \<Rightarrow> tensor \<Rightarrow> tensor" where
  "map_tensor f t = map (map (map f)) t"

section \<open>The lazy image\<close>

text \<open>
  Pixel tensors are mutated in place (\<^verbatim>\<open>sigmoid_\<close>, \<^verbatim>\<open>logit_\<close>,
  \<^verbatim>\<open>add_\<close>, \<^verbatim>\<open>mul_\<close>) and shared between the fields of an image, and image
  objects are mutated by their own accessors, so both live in a store: a reference is an
  index, an allocation appends.  Flow fields and affine matrices are held by value: the source
  builds them afresh (\<^verbatim>\<open>affine_grid\<close>, \<^verbatim>\<open>addmm\<close>, \<^verbatim>\<open>@\<close>) and no two
  images share one.
\<close>

record image =
  priv_px :: nat
  priv_logit_px :: "nat option"
  priv_flow :: "flowfield option"
  priv_affine_mat :: "mat3 option"
  sample_kwargs :: kwargs

record state =
  images :: "image list"
  tensors :: "tensor list"

definition upd_image :: "nat \<Rightarrow> (image \<Rightarrow> image) \<Rightarrow> state \<Rightarrow> state" where
  "upd_image r f s = s\<lparr>images := (images s)[r := f (images s ! r)]\<rparr>"

definition new_tensor :: "tensor \<Rightarrow> state \<Rightarrow> nat \<times> state" where
  "new_tensor t s = (length (tensors s), s\<lparr>tensors := tensors s @ [t]\<rparr>)"

definition write_tensor :: "nat \<Rightarrow> tensor \<Rightarrow> state \<Rightarrow> state" where
  "write_tensor a t s = s\<lparr>tensors := (tensors s)[a := t]\<rparr>"

text \<open>\<^verbatim>\<open>Image.__init__(px)\<close>.\<close>

definition Image_init :: "nat \<Rightarrow> state \<Rightarrow> nat \<times> state" where
  "Image_init a s =
     (length (images s),
      s\<lparr>images := images s @
           [\<lparr>priv_px = a, priv_logit_px = None, priv_flow = None, priv_affine_mat = None,
             sample_kwargs = []\<rparr>]\<rparr>)"

text \<open>The property \<^verbatim>\<open>shape\<close>: \<^verbatim>\<open>self._px.shape\<close>, without a refresh.\<close>

definition Image_shape :: "nat \<Rightarrow> state \<Rightarrow> nat \<times> nat \<times> nat" where
  "Image_shape r s = shape (tensors s ! priv_px (images s ! r))"

text \<open>
  The getter of \<^verbatim>\<open>flow\<close>:
  \<^verbatim>\<open>
      if self._flow is None:
          self._flow = affine_grid(self.shape)
      if self._affine_mat is not None:
          self._flow = affine_mult(self._flow,self._affine_mat)
          self._affine_mat = None
      return self._flow
  \<close>
\<close>

definition flow :: "nat \<Rightarrow> state \<Rightarrow> flowfield \<times> state" where
  "flow r s =
     (let img = images s ! r;
          f0 = (case priv_flow img of None \<Rightarrow> affine_grid (Image_shape r s) | Some f \<Rightarrow> f);
          f1 = (case priv_affine_mat img of None \<Rightarrow> f0 | Some m \<Rightarrow> affine_mult f0 (Some m))
      in (f1, upd_image r (\<lambda>i. i\<lparr>priv_flow := Some f1, priv_affine_mat := None\<rparr>) s))"

text \<open>
  \<^verbatim>\<open>
  def refresh(self)->None:
      if self._logit_px is not None:
          self._px = self._logit_px.sigmoid_()
          self._logit_px = None
      if self._affine_mat is not None or self._flow is not None:
          self._px = grid_sample(self._px, self.flow, **self.sample_kwargs)
          self.sample_kwargs = {}
          self._flow = None
      return self
  \<close>
\<close>

definition flush_logit :: "nat \<Rightarrow> state \<Rightarrow> state" where
  "flush_logit r s =
     (case priv_logit_px (images s ! r) of
        None \<Rightarrow> s
      | Some l \<Rightarrow>
          upd_image r (\<lambda>i. i\<lparr>priv_px := l, priv_logit_px := None\<rparr>)
            (write_tensor l (map_tensor sigmoid (tensors s ! l)) s))"

definition refresh :: "torch_grid_sample \<Rightarrow> nat \<Rightarrow> state \<Rightarrow> error + state" where
  "refresh F r s =
     (let s1 = flush_logit r s
      in if priv_affine_mat (images s1 ! r) \<noteq> None \<or> priv_flow (images s1 ! r) \<noteq> None then
           (let (fl, s2) = flow r s1
            in bindE (grid_sample_kw F (tensors s2 ! priv_px (images s2 ! r)) fl
                        (sample_kwargs (images s2 ! r)))
                 (\<lambda>t. let (a, s3) = new_tensor t s2
                      in Inr (upd_image r
                                (\<lambda>i. i\<lparr>priv_px := a, sample_kwargs := [], priv_flow := None\<rparr>) s3)))
         else Inr s1)"

text \<open>The getters of \<^verbatim>\<open>px\<close> (and \<^verbatim>\<open>data\<close>, which returns \<^verbatim>\<open>self.px\<close>).\<close>

definition px :: "torch_grid_sample \<Rightarrow> nat \<Rightarrow> state \<Rightarrow> error + nat \<times> state" where
  "px F r s = bindE (refresh F r s) (\<lambda>s'. Inr (priv_px (images s' ! r), s'))"

definition data :: "torch_grid_sample \<Rightarrow> nat \<Rightarrow> state \<Rightarrow> error + nat \<times> state" where
  "data F r s = px F r s"

text \<open>
  The getter of \<^verbatim>\<open>logit_px\<close>:
  \<^verbatim>\<open>if self._logit_px is None: self._logit_px = logit_(self.px)\<close>; the logits overwrite
  the pixel tensor, which both fields then name.
\<close>

definition logit_px :: "torch_grid_sample \<Rightarrow> nat \<Rightarrow> state \<Rightarrow> error + nat \<times> state" where
  "logit_px F r s =
     (case priv_logit_px (images s ! r) of
        Some l \<Rightarrow> Inr (l, s)
      | None \<Rightarrow>
          bindE (px F r s) (\<lambda>(a, s1).
            Inr (a, upd_image r (\<lambda>i. i\<lparr>priv_logit_px := Some a\<rparr>)
                      (write_tensor a (map_tensor logit (tensors s1 ! a)) s1))))"

text \<open>
  The functions that a transform wraps, by the signatures the source names
  \<^verbatim>\<open>LightingFunc\<close>, \<^verbatim>\<open>PixelFunc\<close>, \<^verbatim>\<open>CoordFunc\<close> and \<^verbatim>\<open>AffineFunc\<close>.
  A function on a pixel tensor either writes its result into its argument and returns it
  (flag \<open>True\<close>, as \<^verbatim>\<open>x.add_(...)\<close>) or returns a new tensor (\<open>False\<close>, as
  \<^verbatim>\<open>x.flip(2)\<close>).  A function handed to the accessor of another signature raises.
\<close>

datatype func =
    LightingFunc bool "kwargs \<Rightarrow> tensor \<Rightarrow> error + tensor"
  | PixelFunc bool "kwargs \<Rightarrow> tensor \<Rightarrow> error + tensor"
  | CoordFunc "kwargs \<Rightarrow> flowfield \<Rightarrow> nat \<times> nat \<times> nat \<Rightarrow> error + flowfield"
  | AffineFunc "kwargs \<Rightarrow> error + mat3"

definition apply_tensor_func ::
  "bool \<Rightarrow> (kwargs \<Rightarrow> tensor \<Rightarrow> error + tensor) \<Rightarrow> kwargs \<Rightarrow> nat \<Rightarrow> state \<Rightarrow> error + nat \<times> state" where
  "apply_tensor_func inplace f kw a s =
     bindE (f kw (tensors s ! a)) (\<lambda>t.
       if inplace then Inr (a, write_tensor a t s) else Inr (new_tensor t s))"

text \<open>
  \<^verbatim>\<open>
  def lighting(self, func, *args, **kwargs):
      self.logit_px = func(self.logit_px, *args, **kwargs)
      return self
  def pixel(self, func, *args, **kwargs):
      self.px = func(self.px, *args, **kwargs)
      return self
  def coord(self, func, *args, **kwargs):
      self.flow = func(self.flow, self.shape, *args, **kwargs)
      return self
  def affine(self, func, *args, **kwargs):
      m = tensor(func(*args, **kwargs)).to(self.device)
      self.affine_mat = self.affine_mat @ m
      return self
  \<close>
  The getter of \<^verbatim>\<open>affine_mat\<close> reads a missing matrix as \<^verbatim>\<open>torch.eye(3)\<close>.
\<close>

definition lighting :: "torch_grid_sample \<Rightarrow> func \<Rightarrow> kwargs \<Rightarrow> nat \<Rightarrow> state \<Rightarrow> error + nat \<times> state" where
  "lighting F fn kw r s =
     (case fn of
        LightingFunc inplace f \<Rightarrow>
          bindE (logit_px F r s) (\<lambda>(l, s1).
          bindE (apply_tensor_func inplace f kw l s1) (\<lambda>(l', s2).
            Inr (r, upd_image r (\<lambda>i. i\<lparr>priv_logit_px := Some l'\<rparr>) s2)))
      | _ \<Rightarrow> Inl TypeError)"

definition pixel :: "torch_grid_sample \<Rightarrow> func \<Rightarrow> kwargs \<Rightarrow> nat \<Rightarrow> state \<Rightarrow> error + nat \<times> state" where
  "pixel F fn kw r s =
     (case fn of
        PixelFunc inplace f \<Rightarrow>
          bindE (px F r s) (\<lambda>(a, s1).
          bindE (apply_tensor_func inplace f kw a s1) (\<lambda>(a', s2).
            Inr (r, upd_image r (\<lambda>i. i\<lparr>priv_px := a'\<rparr>) s2)))
      | _ \<Rightarrow> Inl TypeError)"

definition coord :: "func \<Rightarrow> kwargs \<Rightarrow> nat \<Rightarrow> state \<Rightarrow> error + nat \<times> state" where
  "coord fn kw r s =
     (case fn of
        CoordFunc f \<Rightarrow>
          (let (fl, s1) = flow r s
           in bindE (f kw fl (Image_shape r s1)) (\<lambda>fl'.
                Inr (r, upd_image r (\<lambda>i. i\<lparr>priv_flow := Some fl'\<rparr>) s1)))
      | _ \<Rightarrow> Inl TypeError)"

definition affine_mat :: "image \<Rightarrow> mat3" where
  "affine_mat i = (case priv_affine_mat i of None \<Rightarrow> eye3 | Some a \<Rightarrow> a)"

definition affine :: "func \<Rightarrow> kwargs \<Rightarrow> nat \<Rightarrow> state \<Rightarrow> error + nat \<times> state" where
  "affine fn kw r s =
     (case fn of
        AffineFunc f \<Rightarrow>
          bindE (f kw) (\<lambda>m.
            Inr (r, upd_image r (\<lambda>i. i\<lparr>priv_affine_mat := Some (matmul (affine_mat i) m)\<rparr>) s))
      | _ \<Rightarrow> Inl TypeError)"

text \<open>
  \<^verbatim>\<open>
  def resize(self, size):
      assert self._flow is None
      if isinstance(size, int): size=(self.shape[0], size, size)
      self.flow = affine_grid(size)
      return self
  \<close>
  A negative dimension makes \<^verbatim>\<open>FloatTensor(N, H, W, 2)\<close> raise; \<^verbatim>\<open>None\<close> cannot be
  added to a tuple.
\<close>

datatype size_arg = SizeNone | SizeInt int | SizeTuple nat nat nat

definition resize :: "nat \<Rightarrow> size_arg \<Rightarrow> state \<Rightarrow> error + nat \<times> state" where
  "resize r sz s =
     (if priv_flow (images s ! r) \<noteq> None then Inl (AssertionError [])
      else bindE (case sz of
                    SizeNone \<Rightarrow> Inl TypeError
                  | SizeInt n \<Rightarrow>
                      if n < 0 then Inl RuntimeError
                      else Inr (fst (Image_shape r s), nat n, nat n)
                  | SizeTuple c h w \<Rightarrow> Inr (c, h, w))
             (\<lambda>sz3. Inr (r, upd_image r (\<lambda>i. i\<lparr>priv_flow := Some (affine_grid sz3)\<rparr>) s)))"

definition set_sample :: "nat \<Rightarrow> kwargs \<Rightarrow> state \<Rightarrow> nat \<times> state" where
  "set_sample r kw s = (r, upd_image r (\<lambda>i. i\<lparr>sample_kwargs := kw\<rparr>) s)"

text \<open>\<^verbatim>\<open>clone\<close>: \<^verbatim>\<open>return self.__class__(self.data.clone())\<close>.\<close>

definition clone :: "torch_grid_sample \<Rightarrow> nat \<Rightarrow> state \<Rightarrow> error + nat \<times> state" where
  "clone F r s =
     bindE (data F r s) (\<lambda>(a, s1).
       let (a', s2) = new_tensor (tensors s1 ! a) s1
       in Inr (Image_init a' s2))"

section \<open>Transform descriptors\<close>

text \<open>
  A Python function as \<^verbatim>\<open>Transform.__init__\<close> sees it: its name, the annotations
  of its parameters (the generators), the defaults of its parameters, and its body.
\<close>

record pyfunc =
  func_name :: string
  annotations :: "(string \<times> rand_func) list"
  defaults :: kwargs
  body :: func

text \<open>
  The subclasses of \<^verbatim>\<open>Transform\<close> with their class attributes:
  \<^verbatim>\<open>
  class TfmLighting(Transform): order,_wrap = 8,'lighting'
  class TfmAffine(Transform): order,_wrap = 5,'affine'
  class TfmPixel(Transform): order,_wrap = 10,'pixel'
  class TfmCoord(Transform): order,_wrap = 4,'coord'
  \<close>
  (The base class, with \<^verbatim>\<open>_wrap=None\<close> and \<^verbatim>\<open>order=0\<close>, wraps no function of
  the module and is left out.)
\<close>

datatype tfm_class = TfmLighting | TfmAffine | TfmPixel | TfmCoord

fun class_order :: "tfm_class \<Rightarrow> int" where
  "class_order TfmLighting = 8"
| "class_order TfmAffine = 5"
| "class_order TfmPixel = 10"
| "class_order TfmCoord = 4"

fun class_wrap :: "tfm_class \<Rightarrow> string" where
  "class_wrap TfmLighting = ''lighting''"
| "class_wrap TfmAffine = ''affine''"
| "class_wrap TfmPixel = ''pixel''"
| "class_wrap TfmCoord = ''coord''"

text \<open>
  \<^verbatim>\<open>
  def __init__(self, func, order=None):
      if order is not None: self.order=order
      self.func=func
      self.params = copy(func.__annotations__)
      self.def_args = get_default_args(func)
  \<close>
  \<open>tfm_id\<close> is the identity of the object (the key of \<^verbatim>\<open>xtra\<close>).
\<close>

record Transform =
  tfm_id :: nat
  cls :: tfm_class
  func :: pyfunc
  order :: int
  params :: "(string \<times> rand_func) list"
  def_args :: kwargs

definition Transform_init :: "nat \<Rightarrow> tfm_class \<Rightarrow> pyfunc \<Rightarrow> int option \<Rightarrow> Transform" where
  "Transform_init i c f ord =
     \<lparr>tfm_id = i, cls = c, func = f,
      order = (case ord of None \<Rightarrow> class_order c | Some n \<Rightarrow> n),
      params = annotations f, def_args = defaults f\<rparr>"

text \<open>
  \<^verbatim>\<open>
  def calc(tfm, x, *args, **kwargs):
      if tfm._wrap: return getattr(x, tfm._wrap)(tfm.func, *args, **kwargs)
      else:          return tfm.func(x, *args, **kwargs)
  \<close>
  Positional arguments after the image are not modelled.
\<close>

definition calc :: "torch_grid_sample \<Rightarrow> Transform \<Rightarrow> nat \<Rightarrow> kwargs \<Rightarrow> state \<Rightarrow> error + nat \<times> state" where
  "calc F t x kw s =
     (if class_wrap (cls t) = ''lighting'' then lighting F (body (func t)) kw x s
      else if class_wrap (cls t) = ''pixel'' then pixel F (body (func t)) kw x s
      else if class_wrap (cls t) = ''coord'' then coord (body (func t)) kw x s
      else affine (body (func t)) kw x s)"

section \<open>Randomized transform instances\<close>

text \<open>
  \<^verbatim>\<open>
  @dataclass
  class RandTransform():
      tfm:Transform
      kwargs:dict
      p:int=1.0
      resolved:dict = field(default_factory=dict)
      do_run:bool = True
      is_random:bool = True
  \<close>
\<close>

record RandTransform =
  tfm :: Transform
  kwargs :: kwargs
  p :: pyval
  resolved :: kwargs
  do_run :: bool
  is_random :: bool

text \<open>
  \<^verbatim>\<open>
  def __call__(self, *args, p=1., is_random=True, **kwargs):
      if args: return self.calc(*args, **kwargs)
      else: return RandTransform(self, kwargs=kwargs, is_random=is_random, p=p)
  \<close>
  The two branches are two functions.  With an image, the keywords \<open>p\<close> and
  \<open>is_random\<close> are bound to the parameters of that name and do not reach \<open>calc\<close>.
\<close>

definition Transform_call_image ::
  "torch_grid_sample \<Rightarrow> Transform \<Rightarrow> nat \<Rightarrow> kwargs \<Rightarrow> state \<Rightarrow> error + nat \<times> state" where
  "Transform_call_image F t x kw s =
     calc F t x (filter (\<lambda>kv. fst kv \<noteq> ''p'' \<and> fst kv \<noteq> ''is_random'') kw) s"

definition Transform_call_deferred :: "Transform \<Rightarrow> pyval \<Rightarrow> bool \<Rightarrow> kwargs \<Rightarrow> RandTransform" where
  "Transform_call_deferred t pr rnd kw =
     \<lparr>tfm = t, kwargs = kw, p = pr, resolved = [], do_run = True, is_random = rnd\<rparr>"

text \<open>
  \<^verbatim>\<open>
  def resolve(self):
      if not self.is_random:
          self.resolved = {**self.tfm.def_args, **self.kwargs}
          return
      self.resolved = {}
      for k,v in self.kwargs.items():
          if k in self.tfm.params:
              rand_func = self.tfm.params[k]
              self.resolved[k] = rand_func(*listify(v))
          else: self.resolved[k] = v
      for k,v in self.tfm.def_args.items():
          if k not in self.resolved: self.resolved[k]=v
      for k,v in self.tfm.params.items():
          if k not in self.resolved: self.resolved[k]=v()
      self.do_run = rand_bool(self.p)
  \<close>
\<close>

fun resolve_kwargs ::
  "(string \<times> rand_func) list \<Rightarrow> kwargs \<Rightarrow> kwargs \<Rightarrow> rng \<Rightarrow> error + kwargs \<times> rng" where
  "resolve_kwargs ps [] res g = Inr (res, g)"
| "resolve_kwargs ps ((k, v) # kvs) res g =
     (case map_of ps k of
        Some rand_func \<Rightarrow>
          bindE (listify v PNone) (\<lambda>args.
          bindE (call_rand_func rand_func args g) (\<lambda>(x, g').
            resolve_kwargs ps kvs (dict_set res k x) g'))
      | None \<Rightarrow> resolve_kwargs ps kvs (dict_set res k v) g)"

fun resolve_def_args :: "kwargs \<Rightarrow> kwargs \<Rightarrow> kwargs" where
  "resolve_def_args [] res = res"
| "resolve_def_args ((k, v) # kvs) res =
     resolve_def_args kvs (if dict_has res k then res else dict_set res k v)"

fun resolve_params :: "(string \<times> rand_func) list \<Rightarrow> kwargs \<Rightarrow> rng \<Rightarrow> error + kwargs \<times> rng" where
  "resolve_params [] res g = Inr (res, g)"
| "resolve_params ((k, v) # kvs) res g =
     (if dict_has res k then resolve_params kvs res g
      else bindE (call_rand_func v [] g) (\<lambda>(x, g'). resolve_params kvs (dict_set res k x) g'))"

definition resolve :: "RandTransform \<Rightarrow> rng \<Rightarrow> error + RandTransform \<times> rng" where
  "resolve rt g =
     (if \<not> is_random rt then
        Inr (rt\<lparr>resolved := dict_merge (def_args (tfm rt)) (kwargs rt)\<rparr>, g)
      else
        bindE (resolve_kwargs (params (tfm rt)) (kwargs rt) [] g) (\<lambda>(res1, g1).
        bindE (resolve_params (params (tfm rt)) (resolve_def_args (def_args (tfm rt)) res1) g1)
          (\<lambda>(res3, g3).
        bindE (rand_bool (p rt) PNone g3) (\<lambda>(b, g4).
          Inr (rt\<lparr>resolved := res3, do_run := (b = PBool True)\<rparr>, g4)))))"

text \<open>
  \<^verbatim>\<open>
  def __call__(self, x, *args, **kwargs):
      return self.tfm(x, *args, **{**self.resolved, **kwargs}) if self.do_run else x
  \<close>
\<close>

definition RandTransform_call ::
  "torch_grid_sample \<Rightarrow> RandTransform \<Rightarrow> nat \<Rightarrow> kwargs \<Rightarrow> state \<Rightarrow> error + nat \<times> state" where
  "RandTransform_call F rt x kw s =
     (if do_run rt then Transform_call_image F (tfm rt) x (dict_merge (resolved rt) kw) s
      else Inr (x, s))"

section \<open>The pipeline executor\<close>

text \<open>
  \<^verbatim>\<open>
  def resolve_tfms(tfms):
      for f in listify(tfms): f.resolve()

  def apply_tfms(tfms, x, do_resolve=True, xtra=None, size=None, **kwargs):
      if not (tfms or size): return x
      if not xtra: xtra={}
      tfms = sorted(listify(tfms), key=lambda o: o.tfm.order)
      if do_resolve: resolve_tfms(tfms)
      x = x.clone()
      if kwargs: x.set_sample(**kwargs)
      if size: x.resize(size)
      for tfm in tfms:
          if tfm.tfm in xtra: x = tfm(x, **xtra[tfm.tfm])
          else:               x = tfm(x)
      return x
  \<close>
  The transforms are a list of instances, each its own object (\<^verbatim>\<open>None\<close> is the empty
  list, a single instance the list of it); \<open>resolve\<close> updates the instances in the list.
  \<^verbatim>\<open>sorted\<close> is stable, as \<open>sort_key\<close> is.
\<close>

fun resolve_tfms :: "RandTransform list \<Rightarrow> rng \<Rightarrow> error + RandTransform list \<times> rng" where
  "resolve_tfms [] g = Inr ([], g)"
| "resolve_tfms (f # fs) g =
     bindE (resolve f g) (\<lambda>(f', g').
     bindE (resolve_tfms fs g') (\<lambda>(fs', g''). Inr (f' # fs', g'')))"

fun size_truthy :: "size_arg \<Rightarrow> bool" where
  "size_truthy SizeNone = False"
| "size_truthy (SizeInt n) = (n \<noteq> 0)"
| "size_truthy (SizeTuple c h w) = True"

definition sorted_tfms :: "RandTransform list \<Rightarrow> RandTransform list" where
  "sorted_tfms tfms = sort_key (\<lambda>t. order (tfm t)) tfms"

fun apply_each ::
  "torch_grid_sample \<Rightarrow> (nat \<times> kwargs) list \<Rightarrow> RandTransform list \<Rightarrow> nat \<Rightarrow> state \<Rightarrow> error + nat \<times> state" where
  "apply_each F xtra [] x s = Inr (x, s)"
| "apply_each F xtra (t # ts) x s =
     bindE (case map_of xtra (tfm_id (tfm t)) of
              Some kw \<Rightarrow> RandTransform_call F t x kw s
            | None \<Rightarrow> RandTransform_call F t x [] s)
       (\<lambda>(x', s'). apply_each F xtra ts x' s')"

definition apply_tfms ::
  "torch_grid_sample \<Rightarrow> RandTransform list \<Rightarrow> nat \<Rightarrow> bool \<Rightarrow> (nat \<times> kwargs) list \<Rightarrow> size_arg \<Rightarrow> kwargs \<Rightarrow>
   state \<Rightarrow> rng \<Rightarrow> error + nat \<times> state \<times> rng" where
  "apply_tfms F tfms x do_resolve xtra sz kw s g =
     (if \<not> (tfms \<noteq> [] \<or> size_truthy sz) then Inr (x, s, g)
      else
        bindE (if do_resolve then resolve_tfms (sorted_tfms tfms) g
               else Inr (sorted_tfms tfms, g)) (\<lambda>(ts, g').
        bindE (clone F x s) (\<lambda>(c, s1).
          let s2 = (if kw \<noteq> [] then snd (set_sample c kw s1) else s1)
          in bindE (if size_truthy sz then resize c sz s2 else Inr (c, s2)) (\<lambda>(c', s3).
             bindE (apply_each F xtra ts c' s3) (\<lambda>(y, s4). Inr (y, s4, g'))))))"

section \<open>Registered transforms\<close>

text \<open>
  The call \<^verbatim>\<open>f(..., **kw)\<close> of a Python function whose keyword parameters are
  \<open>required\<close> (no default) and the keys of \<open>dflt\<close>: an unknown keyword or a missing
  required one raises, a missing optional one takes its default.
\<close>

definition bind_args :: "string list \<Rightarrow> kwargs \<Rightarrow> kwargs \<Rightarrow> error + kwargs" where
  "bind_args required dflt kw =
     (if (\<exists>k \<in> set (map fst kw). k \<notin> set required \<union> set (map fst dflt))
         \<or> (\<exists>k \<in> set required. k \<notin> set (map fst kw))
      then Inl TypeError
      else Inr (dict_merge dflt kw))"

definition arg_number :: "kwargs \<Rightarrow> string \<Rightarrow> error + real" where
  "arg_number kw k = (case map_of kw k of None \<Rightarrow> Inl TypeError | Some v \<Rightarrow> as_number v)"

text \<open>
  \<^verbatim>\<open>
  @TfmLighting
  def brightness(x, change:uniform): return x.add_(scipy.special.logit(change))

  @TfmLighting
  def contrast(x, scale:log_uniform): return x.mul_(scale)
  \<close>
\<close>

definition brightness_body :: "kwargs \<Rightarrow> tensor \<Rightarrow> error + tensor" where
  "brightness_body kw x =
     bindE (bind_args [''change''] [] kw) (\<lambda>a.
     bindE (arg_number a ''change'') (\<lambda>change.
       Inr (map_tensor (\<lambda>v. v + ln (change / (1 - change))) x)))"

definition brightness_func :: pyfunc where
  "brightness_func =
     \<lparr>func_name = ''brightness'', annotations = [(''change'', Uniform)], defaults = [],
      body = LightingFunc True brightness_body\<rparr>"

definition brightness :: Transform where
  "brightness = Transform_init 0 TfmLighting brightness_func None"

definition contrast_body :: "kwargs \<Rightarrow> tensor \<Rightarrow> error + tensor" where
  "contrast_body kw x =
     bindE (bind_args [''scale''] [] kw) (\<lambda>a.
     bindE (arg_number a ''scale'') (\<lambda>scale.
       Inr (map_tensor (\<lambda>v. v * scale) x)))"

definition contrast_func :: pyfunc where
  "contrast_func =
     \<lparr>func_name = ''contrast'', annotations = [(''scale'', LogUniform)], defaults = [],
      body = LightingFunc True contrast_body\<rparr>"

definition contrast :: Transform where
  "contrast = Transform_init 1 TfmLighting contrast_func None"

text \<open>
  \<^verbatim>\<open>
  @TfmAffine
  def rotate(degrees:uniform):
      angle = degrees * math.pi / 180
      return [[cos(angle), -sin(angle), 0.],
              [sin(angle),  cos(angle), 0.],
              [0.        ,  0.        , 1.]]

  def get_zoom_mat(sw, sh, c, r):
      return [[sw, 0,  c],
              [0, sh,  r],
              [0,  0, 1.]]

  @TfmAffine
  def zoom(scale:uniform=1.0, row_pct:uniform=0.5, col_pct:uniform=0.5):
      s = 1-1/scale
      col_c = s * (2*col_pct - 1)
      row_c = s * (2*row_pct - 1)
      return get_zoom_mat(1/scale, 1/scale, col_c, row_c)
  \<close>
\<close>

definition rotate_body :: "kwargs \<Rightarrow> error + mat3" where
  "rotate_body kw =
     bindE (bind_args [''degrees''] [] kw) (\<lambda>a.
     bindE (arg_number a ''degrees'') (\<lambda>degrees.
       let angle = degrees * pi / 180
       in Inr ((cos angle, - sin angle, 0), (sin angle, cos angle, 0), (0, 0, 1))))"

definition rotate_func :: pyfunc where
  "rotate_func =
     \<lparr>func_name = ''rotate'', annotations = [(''degrees'', Uniform)], defaults = [],
      body = AffineFunc rotate_body\<rparr>"

definition rotate :: Transform where
  "rotate = Transform_init 2 TfmAffine rotate_func None"

definition get_zoom_mat :: "real \<Rightarrow> real \<Rightarrow> real \<Rightarrow> real \<Rightarrow> mat3" where
  "get_zoom_mat sw sh c r = ((sw, 0, c), (0, sh, r), (0, 0, 1))"

definition zoom_defaults :: kwargs where
  "zoom_defaults = [(''scale'', PFloat 1), (''row_pct'', PFloat (1 / 2)), (''col_pct'', PFloat (1 / 2))]"

definition zoom_body :: "kwargs \<Rightarrow> error + mat3" where
  "zoom_body kw =
     bindE (bind_args [] zoom_defaults kw) (\<lambda>a.
     bindE (arg_number a ''scale'') (\<lambda>scale.
     bindE (arg_number a ''row_pct'') (\<lambda>row_pct.
     bindE (arg_number a ''col_pct'') (\<lambda>col_pct.
       if scale = 0 then Inl ZeroDivisionError
       else let s = 1 - 1 / scale;
                col_c = s * (2 * col_pct - 1);
                row_c = s * (2 * row_pct - 1)
            in Inr (get_zoom_mat (1 / scale) (1 / scale) col_c row_c)))))"

definition zoom_func :: pyfunc where
  "zoom_func =
     \<lparr>func_name = ''zoom'',
      annotations = [(''scale'', Uniform), (''row_pct'', Uniform), (''col_pct'', Uniform)],
      defaults = zoom_defaults,
      body = AffineFunc zoom_body\<rparr>"

definition zoom :: Transform where
  "zoom = Transform_init 3 TfmAffine zoom_func None"

text \<open>
  \<^verbatim>\<open>
  @TfmPixel
  def flip_lr(x): return x.flip(2)
  \<close>
\<close>

definition flip_lr_body :: "kwargs \<Rightarrow> tensor \<Rightarrow> error + tensor" where
  "flip_lr_body kw x = bindE (bind_args [] [] kw) (\<lambda>a. Inr (map (map rev) x))"

definition flip_lr_func :: pyfunc where
  "flip_lr_func =
     \<lparr>func_name = ''flip_lr'', annotations = [], defaults = [],
      body = PixelFunc False flip_lr_body\<rparr>"

definition flip_lr :: Transform where
  "flip_lr = Transform_init 6 TfmPixel flip_lr_func None"

text \<open>
  \<^verbatim>\<open>squish\<close>, \<^verbatim>\<open>jitter\<close>, \<^verbatim>\<open>pad\<close>, \<^verbatim>\<open>crop\<close> and
  \<^verbatim>\<open>zoom_squish\<close> are registered in the same way; of these only the registration of
  \<^verbatim>\<open>pad\<close> differs, \<^verbatim>\<open>@partial(TfmPixel, order=-10)\<close>, which is
  \<open>Transform_init i TfmPixel f (Some (- 10))\<close>.
\<close>

text \<open>
  A value for the parameter \<open>F\<close> where a concrete one is needed: a
  \<^verbatim>\<open>F.grid_sample\<close> that rejects every call.  The nearest mode never calls it.
\<close>

definition F_rejecting :: torch_grid_sample where
  "F_rejecting x coords mode padding_mode = Inl RuntimeError"

subsection \<open>Example values\<close>

text \<open>
  A store with one image of shape \<open>(1, 2, 3)\<close> and nothing pending, and random sources
  that hand out \<open>1/2\<close> for ever.
\<close>

definition clean_image :: image where
  "clean_image =
     \<lparr>priv_px = 0, priv_logit_px = None, priv_flow = None, priv_affine_mat = None,
      sample_kwargs = []\<rparr>"

definition store1 :: state where
  "store1 = \<lparr>images = [clean_image], tensors = [[[[10, 20, 30], [40, 50, 60]]]]\<rparr>"

text \<open>
  A store whose image has everything pending: logits (sharing the pixel tensor, as the getter
  of \<^verbatim>\<open>logit_px\<close> leaves them), an affine matrix that mirrors left and right, and the
  nearest mode requested.
\<close>

definition flip_mat :: mat3 where
  "flip_mat = ((- 1, 0, 0), (0, 1, 0), (0, 0, 1))"

definition store_pending :: state where
  "store_pending =
     \<lparr>images = [\<lparr>priv_px = 0, priv_logit_px = Some 0, priv_flow = None,
                  priv_affine_mat = Some flip_mat,
                  sample_kwargs = [(''mode'', PStr ''nearest'')]\<rparr>],
      tensors = [[[[0, 0, 0], [0, 0, 0]]]]\<rparr>"

text \<open>
  The store after \<^verbatim>\<open>set_sample(mode='nearest')\<close> and \<^verbatim>\<open>rotate(degrees=180)\<close> on
  the image of \<open>store1\<close>, and the stores that \<open>apply_tfms\<close> with the one transform
  \<^verbatim>\<open>flip_lr()\<close> makes of it and of \<open>store1\<close>.
\<close>

definition store_rotated :: state where
  "store_rotated =
     \<lparr>images = [\<lparr>priv_px = 0, priv_logit_px = None, priv_flow = None,
                  priv_affine_mat = Some ((- 1, 0, 0), (0, - 1, 0), (0, 0, 1)),
                  sample_kwargs = [(''mode'', PStr ''nearest'')]\<rparr>],
      tensors = [[[[10, 20, 30], [40, 50, 60]]]]\<rparr>"

definition store_rotated_after :: state where
  "store_rotated_after =
     \<lparr>images = [\<lparr>priv_px = 1, priv_logit_px = None, priv_flow = None, priv_affine_mat = None,
                  sample_kwargs = []\<rparr>,
                \<lparr>priv_px = 3, priv_logit_px = None, priv_flow = None, priv_affine_mat = None,
                  sample_kwargs = []\<rparr>],
      tensors = [[[[10, 20, 30], [40, 50, 60]]], [[[60, 60, 40], [30, 30, 10]]],
                 [[[60, 60, 40], [30, 30, 10]]], [[[40, 60, 60], [10, 30, 30]]]]\<rparr>"

definition store1_after :: state where
  "store1_after =
     \<lparr>images = [clean_image,
                \<lparr>priv_px = 2, priv_logit_px = None, priv_flow = None, priv_affine_mat = None,
                  sample_kwargs = []\<rparr>],
      tensors = [[[[10, 20, 30], [40, 50, 60]]], [[[10, 20, 30], [40, 50, 60]]],
                 [[[30, 20, 10], [60, 50, 40]]]]\<rparr>"

definition rng_half :: rng where
  "rng_half = \<lparr>py_source = (\<lambda>n. 1 / 2), torch_source = (\<lambda>n. 1 / 2)\<rparr>"

text \<open>Random sources that hand out \<open>1/4\<close> for ever.\<close>

definition rng_quarter :: rng where
  "rng_quarter = \<lparr>py_source = (\<lambda>n. 1 / 4), torch_source = (\<lambda>n. 1 / 4)\<rparr>"

text \<open>
  The store that \<open>apply_tfms\<close> makes of \<open>store1\<close> with the nearest mode and the
  transforms \<^verbatim>\<open>rotate(degrees=(180,180))\<close> and \<^verbatim>\<open>flip_lr()\<close>: the clone is rotated
  first and mirrored then.
\<close>

definition store1_rotated_flipped :: state where
  "store1_rotated_flipped =
     \<lparr>images = [clean_image,
                \<lparr>priv_px = 3, priv_logit_px = None, priv_flow = None, priv_affine_mat = None,
                  sample_kwargs = []\<rparr>],
      tensors = [[[[10, 20, 30], [40, 50, 60]]], [[[10, 20, 30], [40, 50, 60]]],
                 [[[60, 60, 40], [30, 30, 10]]], [[[40, 60, 60], [10, 30, 30]]]]\<rparr>"

subsection \<open>What a clone owns\<close>

text \<open>
  The image \<open>c\<close> was created after the store was \<open>s0\<close>, every image and every tensor
  of \<open>s0\<close> is in \<open>s\<close> as it was, and the tensors that \<open>c\<close> names (its pixels and its
  pending logits) were allocated after \<open>s0\<close>.
\<close>

definition isolated :: "state \<Rightarrow> nat \<Rightarrow> state \<Rightarrow> bool" where
  "isolated s0 c s \<longleftrightarrow>
     length (images s0) \<le> c \<and> c < length (images s) \<and>
     take (length (images s0)) (images s) = images s0 \<and>
     take (length (tensors s0)) (tensors s) = tensors s0 \<and>
     length (tensors s0) \<le> priv_px (images s ! c) \<and> priv_px (images s ! c) < length (tensors s) \<and>
     (\<forall>l. priv_logit_px (images s ! c) = Some l \<longrightarrow>
          length (tensors s0) \<le> l \<and> l < length (tensors s))"

section \<open>Properties\<close>

subsection \<open>Auxiliary facts\<close>

lemma bindE_Inr_iff: "bindE m f = Inr y \<longleftrightarrow> (\<exists>a. m = Inr a \<and> f a = Inr y)"
  by (cases m) auto


lemma sorted_tfms_idem: "sorted_tfms (sorted_tfms ts) = sorted_tfms ts"
  unfolding sorted_tfms_def by (simp add: sort_key_id_if_sorted)

lemma sorted_tfms_Nil_iff: "sorted_tfms ts = [] \<longleftrightarrow> ts = []"
  unfolding sorted_tfms_def by (metis length_0_conv length_sort)

lemma dict_set_fresh: "k \<notin> fst ` set a \<Longrightarrow> dict_set a k v = a @ [(k, v)]"
  by (induction a) auto

lemma dict_merge_distinct: "distinct (map fst (a @ kw)) \<Longrightarrow> dict_merge a kw = a @ kw"
proof (induction kw arbitrary: a)
  case Nil
  then show ?case by simp
next
  case (Cons kv kw)
  obtain k v where kv: "kv = (k, v)" by (cases kv)
  from Cons.prems kv have fresh: "k \<notin> fst ` set a" by auto
  from Cons.prems kv have "distinct (map fst ((a @ [(k, v)]) @ kw))" by simp
  from Cons.IH [OF this] fresh kv show ?case by (simp add: dict_set_fresh)
qed

lemma lookup_pixel_clamped:
  "pm \<noteq> PStr ''zeros'' \<Longrightarrow>
   lookup_pixel pm h w chan c
     = chan ! nat (clamp 0 (int h - 1) (snd c)) ! nat (clamp 0 (int w - 1) (fst c))"
  by (simp add: lookup_pixel_def)

lemma grid_sample_nearest_clamped:
  "pm \<noteq> PStr ''zeros'' \<Longrightarrow>
   grid_sample_nearest x coords pm =
     (case shape x of (ch, h, w) \<Rightarrow>
        if (h = 0 \<or> w = 0) \<and> concat coords \<noteq> [] then Inl IndexError
        else Inr (map (\<lambda>chan.
                 map (map (\<lambda>c. chan ! nat (clamp 0 (int h - 1) (snd (pixel_index h w c)))
                                    ! nat (clamp 0 (int w - 1) (fst (pixel_index h w c)))))
                   coords) x))"
  by (cases "shape x") (simp add: grid_sample_nearest_def lookup_pixel_clamped)

lemma in_unit_random: "in_unit (py_source g) \<Longrightarrow> in_unit (py_source (snd (random_random g)))"
  by (simp add: in_unit_def random_random_def)

lemma uniform_in_unit:
  "uniform lo hi sz g = Inr (v, g') \<Longrightarrow> in_unit (py_source g) \<Longrightarrow> in_unit (py_source g')"
  by (auto simp: uniform_def bindE_Inr_iff random_random_def torch_draws_def in_unit_def Let_def
      split: if_splits)

lemma log_uniform_in_unit:
  "log_uniform lo hi sz g = Inr (v, g') \<Longrightarrow> in_unit (py_source g) \<Longrightarrow> in_unit (py_source g')"
  by (auto simp: log_uniform_def bindE_Inr_iff dest: uniform_in_unit)

lemma rand_bool_in_unit:
  "rand_bool pr sz g = Inr (v, g') \<Longrightarrow> in_unit (py_source g) \<Longrightarrow> in_unit (py_source g')"
  by (auto simp: rand_bool_def bindE_Inr_iff dest: uniform_in_unit)

lemma call_rand_func_in_unit:
  "call_rand_func f args g = Inr (v, g') \<Longrightarrow> in_unit (py_source g) \<Longrightarrow> in_unit (py_source g')"
  by (induction f args g rule: call_rand_func.induct)
     (auto dest: uniform_in_unit log_uniform_in_unit rand_bool_in_unit)

lemma resolve_kwargs_in_unit:
  "resolve_kwargs ps kvs res g = Inr (res', g') \<Longrightarrow> in_unit (py_source g) \<Longrightarrow> in_unit (py_source g')"
proof (induction ps kvs res g rule: resolve_kwargs.induct)
  case (1 ps res g)
  then show ?case by simp
next
  case (2 ps k v kvs res g)
  then show ?case
    by (auto simp: bindE_Inr_iff split: option.splits dest: call_rand_func_in_unit)
qed

lemma resolve_params_in_unit:
  "resolve_params kvs res g = Inr (res', g') \<Longrightarrow> in_unit (py_source g) \<Longrightarrow> in_unit (py_source g')"
proof (induction kvs res g rule: resolve_params.induct)
  case (1 res g)
  then show ?case by simp
next
  case (2 k v kvs res g)
  then show ?case
    by (auto simp: bindE_Inr_iff split: if_splits dest: call_rand_func_in_unit)
qed

lemma rand_bool_scalar:
  "rand_bool pr PNone g = Inr (b, g') \<Longrightarrow> as_number pr = Inr q \<Longrightarrow>
   b = PBool (py_source g 0 < q)"
  by (auto simp: rand_bool_def uniform_def bindE_Inr_iff random_random_def)

lemma floor_minus_one_real: "\<lfloor>- 1 :: real\<rfloor> = - 1"
  by (simp add: floor_eq_iff)

lemmas eval_defs = refresh_def flush_logit_def upd_image_def write_tensor_def map_tensor_def sigmoid_def
  flow_def Image_shape_def shape_def affine_grid_def linear_points_def affine_mult_def affine_point_def
  grid_sample_kw_def kw_get_def grid_sample_def grid_sample_nearest_def lookup_pixel_def pixel_index_def
  clamp_def round_half_even_def new_tensor_def outside_def floor_minus_one_real Let_def

lemma refresh_store_pending:
  "refresh F_rejecting 0 store_pending =
     Inr \<lparr>images = [\<lparr>priv_px = 1, priv_logit_px = None, priv_flow = None,
                  priv_affine_mat = None, sample_kwargs = []\<rparr>],
      tensors = [[[[1 / 2, 1 / 2, 1 / 2], [1 / 2, 1 / 2, 1 / 2]]],
                 [[[1 / 2, 1 / 2, 1 / 2], [1 / 2, 1 / 2, 1 / 2]]]]\<rparr>"
  by (simp add: eval_defs store_pending_def flip_mat_def upt_rec [of 0] upt_rec [of 1] upt_rec [of 2]
      upt_rec [of "Suc 0"])

lemma affine_grid_points:
  "length (affine_grid (C, H, W)) = H \<and>
   (i < H \<longrightarrow> length (affine_grid (C, H, W) ! i) = W) \<and>
   (i < H \<and> j < W \<longrightarrow>
      affine_grid (C, H, W) ! i ! j
        = ((if 1 < W then - 1 + 2 * real j / real (W - 1) else - 1),
           (if 1 < H then - 1 + 2 * real i / real (H - 1) else - 1)))"
  by (simp add: affine_grid_def linear_points_def)

lemma row_times_assoc: "row_times (row_times r a) b = row_times r (matmul a b)"
  by (cases r; cases a; cases b) (auto simp: row_times_def matmul_def algebra_simps)

lemma matmul_assoc: "matmul (matmul a b) c = matmul a (matmul b c)"
  by (cases a) (simp add: matmul_def row_times_assoc)

lemma matmul_eye3_left: "matmul eye3 a = a"
  by (cases a) (auto simp: matmul_def eye3_def row_times_def)

lemma upd_image_twice: "upd_image r f2 (upd_image r f1 s) = upd_image r (\<lambda>i. f2 (f1 i)) s"
proof (cases "r < length (images s)")
  case True
  then show ?thesis by (simp add: upd_image_def)
next
  case False
  then show ?thesis by (simp add: upd_image_def list_update_beyond)
qed

lemma flush_logit_fields:
  assumes "r < length (images s)"
  shows "priv_logit_px (images (flush_logit r s) ! r) = None"
    and "priv_flow (images (flush_logit r s) ! r) = priv_flow (images s ! r)"
    and "priv_affine_mat (images (flush_logit r s) ! r) = priv_affine_mat (images s ! r)"
    and "sample_kwargs (images (flush_logit r s) ! r) = sample_kwargs (images s ! r)"
    and "length (images (flush_logit r s)) = length (images s)"
  using assms by (auto simp: flush_logit_def upd_image_def write_tensor_def split: option.splits)

lemma flush_logit_px:
  assumes "r < length (images s)"
    and "\<forall>l. priv_logit_px (images s ! r) = Some l \<longrightarrow> l < length (tensors s)"
  shows "tensors (flush_logit r s) ! priv_px (images (flush_logit r s) ! r)
           = (case priv_logit_px (images s ! r) of
                None \<Rightarrow> tensors s ! priv_px (images s ! r)
              | Some l \<Rightarrow> map_tensor sigmoid (tensors s ! l))"
  using assms by (auto simp: flush_logit_def upd_image_def write_tensor_def split: option.splits)

lemma isolated_flush_logit: "isolated s0 c s \<Longrightarrow> isolated s0 c (flush_logit c s)"
  by (auto simp: isolated_def flush_logit_def upd_image_def write_tensor_def split: option.splits)

lemma isolated_upd_flow:
  "isolated s0 c s \<Longrightarrow>
   isolated s0 c (upd_image c (\<lambda>i. i\<lparr>priv_flow := fl, priv_affine_mat := m\<rparr>) s)"
  by (auto simp: isolated_def upd_image_def)

lemma isolated_flow: "isolated s0 c s \<Longrightarrow> flow c s = (fl, s') \<Longrightarrow> isolated s0 c s'"
  by (auto simp: flow_def Let_def isolated_upd_flow)

lemma isolated_new_px:
  "isolated s0 c s \<Longrightarrow>
   isolated s0 c (upd_image c (\<lambda>i. i\<lparr>priv_px := length (tensors s), sample_kwargs := k, priv_flow := fl\<rparr>)
                    (s\<lparr>tensors := tensors s @ [t]\<rparr>))"
  by (auto simp: isolated_def upd_image_def nth_append)

lemma isolated_refresh:
  assumes "isolated s0 c s" and "refresh F c s = Inr s'"
  shows "isolated s0 c s'"
proof -
  let ?s1 = "flush_logit c s"
  have i1: "isolated s0 c ?s1" using assms(1) by (rule isolated_flush_logit)
  show ?thesis
  proof (cases "priv_affine_mat (images ?s1 ! c) \<noteq> None \<or> priv_flow (images ?s1 ! c) \<noteq> None")
    case False
    with assms(2) have "s' = ?s1" by (simp add: refresh_def del: not_None_eq)
    with i1 show ?thesis by simp
  next
    case True
    obtain fl s2 where fl: "flow c ?s1 = (fl, s2)" by (cases "flow c ?s1")
    with i1 have i2: "isolated s0 c s2" by (rule isolated_flow)
    from assms(2) True fl obtain t where
      "s' = upd_image c (\<lambda>i. i\<lparr>priv_px := length (tensors s2), sample_kwargs := [], priv_flow := None\<rparr>)
              (s2\<lparr>tensors := tensors s2 @ [t]\<rparr>)"
      by (auto simp: refresh_def Let_def bindE_Inr_iff new_tensor_def simp del: not_None_eq)
    with isolated_new_px [OF i2] show ?thesis by simp
  qed
qed

lemma isolated_px:
  "isolated s0 c s \<Longrightarrow> px F c s = Inr (a, s') \<Longrightarrow>
   isolated s0 c s' \<and> a = priv_px (images s' ! c)"
  by (auto simp: px_def bindE_Inr_iff dest: isolated_refresh)

lemma isolated_logit_write:
  "isolated s0 c s \<Longrightarrow>
   isolated s0 c (upd_image c (\<lambda>i. i\<lparr>priv_logit_px := Some (priv_px (images s ! c))\<rparr>)
                    (write_tensor (priv_px (images s ! c)) t s))"
  by (auto simp: isolated_def upd_image_def write_tensor_def)

lemma isolated_logit_px:
  assumes "isolated s0 c s" and "logit_px F c s = Inr (l, s')"
  shows "isolated s0 c s' \<and> length (tensors s0) \<le> l \<and> l < length (tensors s')"
proof (cases "priv_logit_px (images s ! c)")
  case (Some l0)
  with assms show ?thesis by (auto simp: logit_px_def isolated_def)
next
  case None
  with assms(2) obtain a s1 where p: "px F c s = Inr (a, s1)"
    and s': "s' = upd_image c (\<lambda>i. i\<lparr>priv_logit_px := Some a\<rparr>)
                    (write_tensor a (map_tensor logit (tensors s1 ! a)) s1)"
    and l: "l = a"
    by (auto simp: logit_px_def bindE_Inr_iff)
  from isolated_px [OF assms(1) p] have i1: "isolated s0 c s1" and a: "a = priv_px (images s1 ! c)"
    by simp_all
  from isolated_logit_write [OF i1] s' a have "isolated s0 c s'" by simp
  moreover from i1 a have "length (tensors s0) \<le> a" "a < length (tensors s1)"
    by (simp_all add: isolated_def)
  moreover have "length (tensors s') = length (tensors s1)"
    by (simp add: s' upd_image_def write_tensor_def)
  ultimately show ?thesis using l by simp
qed

lemma isolated_apply_tensor_func:
  assumes "isolated s0 c s" and "length (tensors s0) \<le> a" and "a < length (tensors s)"
    and "apply_tensor_func inplace f kw a s = Inr (a', s')"
  shows "images s' = images s \<and> length (tensors s) \<le> length (tensors s') \<and>
         take (length (tensors s0)) (tensors s') = tensors s0 \<and>
         length (tensors s0) \<le> a' \<and> a' < length (tensors s')"
  using assms
  by (auto simp: apply_tensor_func_def bindE_Inr_iff write_tensor_def new_tensor_def isolated_def
      split: if_splits)

lemma isolated_set_field:
  assumes "isolated s0 c s" and "images s' = images s" and "length (tensors s) \<le> length (tensors s')"
    and "take (length (tensors s0)) (tensors s') = tensors s0"
    and "length (tensors s0) \<le> a'" and "a' < length (tensors s')"
  shows "isolated s0 c (upd_image c (\<lambda>i. i\<lparr>priv_logit_px := Some a'\<rparr>) s')"
    and "(\<forall>l. priv_logit_px (images s ! c) = Some l \<longrightarrow> l < length (tensors s')) \<Longrightarrow>
         isolated s0 c (upd_image c (\<lambda>i. i\<lparr>priv_px := a'\<rparr>) s')"
  using assms by (auto simp: isolated_def upd_image_def)

lemma isolated_lighting:
  assumes "isolated s0 c s" and "lighting F fn kw c s = Inr (c', s')"
  shows "c' = c \<and> isolated s0 c s'"
proof -
  from assms(2) obtain inplace f l s1 l' s2 where
    "logit_px F c s = Inr (l, s1)" and ap: "apply_tensor_func inplace f kw l s1 = Inr (l', s2)"
    and s': "s' = upd_image c (\<lambda>i. i\<lparr>priv_logit_px := Some l'\<rparr>) s2" and c': "c' = c"
    by (auto simp: lighting_def bindE_Inr_iff split: func.splits)
  with isolated_logit_px [OF assms(1)] have i1: "isolated s0 c s1"
    and l: "length (tensors s0) \<le> l" "l < length (tensors s1)" by blast+
  from isolated_apply_tensor_func [OF i1 l ap] isolated_set_field(1) [OF i1] s' c'
  show ?thesis by blast
qed

lemma isolated_pixel:
  assumes "isolated s0 c s" and "pixel F fn kw c s = Inr (c', s')"
  shows "c' = c \<and> isolated s0 c s'"
proof -
  from assms(2) obtain inplace f a s1 a' s2 where
    p: "px F c s = Inr (a, s1)" and ap: "apply_tensor_func inplace f kw a s1 = Inr (a', s2)"
    and s': "s' = upd_image c (\<lambda>i. i\<lparr>priv_px := a'\<rparr>) s2" and c': "c' = c"
    by (auto simp: pixel_def bindE_Inr_iff split: func.splits)
  from isolated_px [OF assms(1) p] have i1: "isolated s0 c s1" and a: "a = priv_px (images s1 ! c)"
    by simp_all
  from i1 a have l: "length (tensors s0) \<le> a" "a < length (tensors s1)"
    by (simp_all add: isolated_def)
  note t = isolated_apply_tensor_func [OF i1 l ap]
  from i1 t have "\<forall>l. priv_logit_px (images s1 ! c) = Some l \<longrightarrow> l < length (tensors s2)"
    by (auto simp: isolated_def)
  with isolated_set_field(2) [OF i1] t s' c' show ?thesis by blast
qed

lemma isolated_coord:
  assumes "isolated s0 c s" and "coord fn kw c s = Inr (c', s')"
  shows "c' = c \<and> isolated s0 c s'"
proof -
  obtain fl s1 where fl: "flow c s = (fl, s1)" by (cases "flow c s")
  with assms(1) have i1: "isolated s0 c s1" by (rule isolated_flow)
  from assms(2) fl obtain fl' where
    "s' = upd_image c (\<lambda>i. i\<lparr>priv_flow := Some fl'\<rparr>) s1" and "c' = c"
    by (auto simp: coord_def bindE_Inr_iff split: func.splits)
  moreover from i1 have "isolated s0 c (upd_image c (\<lambda>i. i\<lparr>priv_flow := Some fl'\<rparr>) s1)"
    by (auto simp: isolated_def upd_image_def)
  ultimately show ?thesis by simp
qed

lemma isolated_affine:
  assumes "isolated s0 c s" and "affine fn kw c s = Inr (c', s')"
  shows "c' = c \<and> isolated s0 c s'"
  using assms
  by (auto simp: affine_def bindE_Inr_iff isolated_def upd_image_def split: func.splits)

lemma isolated_calc:
  "isolated s0 c s \<Longrightarrow> calc F t c kw s = Inr (c', s') \<Longrightarrow> c' = c \<and> isolated s0 c s'"
  unfolding calc_def
  by (auto split: if_splits dest: isolated_lighting isolated_pixel isolated_coord isolated_affine)

lemma isolated_RandTransform_call:
  "isolated s0 c s \<Longrightarrow> RandTransform_call F rt c kw s = Inr (c', s') \<Longrightarrow>
   c' = c \<and> isolated s0 c s'"
  unfolding RandTransform_call_def Transform_call_image_def
  by (auto split: if_splits dest: isolated_calc)

lemma isolated_apply_each:
  "isolated s0 c s \<Longrightarrow> apply_each F xtra ts c s = Inr (c', s') \<Longrightarrow>
   c' = c \<and> isolated s0 c s'"
proof (induction ts arbitrary: s)
  case Nil
  then show ?case by simp
next
  case (Cons t ts)
  from Cons.prems(2) obtain c1 s1 where
    step: "(case map_of xtra (tfm_id (tfm t)) of
              Some kw \<Rightarrow> RandTransform_call F t c kw s
            | None \<Rightarrow> RandTransform_call F t c [] s) = Inr (c1, s1)"
    and rest: "apply_each F xtra ts c1 s1 = Inr (c', s')"
    by (auto simp: bindE_Inr_iff)
  from step Cons.prems(1) have "c1 = c \<and> isolated s0 c s1"
    by (auto split: option.splits dest: isolated_RandTransform_call)
  with rest Cons.IH show ?case by blast
qed

lemma isolated_resize:
  "isolated s0 c s \<Longrightarrow> resize c sz s = Inr (c', s') \<Longrightarrow> c' = c \<and> isolated s0 c s'"
  by (auto simp: resize_def bindE_Inr_iff isolated_def upd_image_def split: if_splits)

lemma isolated_set_sample:
  "isolated s0 c s \<Longrightarrow> isolated s0 c (snd (set_sample c kw s))"
  by (auto simp: set_sample_def isolated_def upd_image_def)

lemma clone_isolated:
  assumes "r < length (images s)" and "priv_px (images s ! r) < length (tensors s)"
    and "priv_logit_px (images s ! r) = None" and "priv_flow (images s ! r) = None"
    and "priv_affine_mat (images s ! r) = None"
    and "clone F r s = Inr (c, s')"
  shows "c = length (images s) \<and> isolated s c s'"
proof -
  from assms(3-5) have "refresh F r s = Inr s"
    by (simp add: refresh_def flush_logit_def)
  with assms(6) have "c = length (images s)"
    and "s' = snd (Image_init (length (tensors s)) (s\<lparr>tensors := tensors s @ [tensors s ! priv_px (images s ! r)]\<rparr>))"
    by (auto simp: clone_def data_def px_def new_tensor_def Image_init_def)
  then show ?thesis by (simp add: isolated_def Image_init_def)
qed

lemmas pipeline_defs = apply_tfms_def sorted_tfms_def Transform_call_deferred_def flip_lr_def
  Transform_init_def flip_lr_func_def flip_lr_body_def bind_args_def resolve_def rand_bool_def
  uniform_def random_random_def rng_half_def clone_def data_def px_def Image_init_def
  RandTransform_call_def Transform_call_image_def calc_def pixel_def apply_tensor_func_def
  set_sample_def

lemma rotate_store1:
  "Transform_call_image F_rejecting rotate 0 [(''degrees'', PFloat 180)]
     (snd (set_sample 0 [(''mode'', PStr ''nearest'')] store1)) = Inr (0, store_rotated)"
  by (simp add: Transform_call_image_def calc_def rotate_def Transform_init_def rotate_func_def
      rotate_body_def bind_args_def arg_number_def affine_def affine_mat_def eye3_def matmul_def
      row_times_def set_sample_def upd_image_def store1_def clean_image_def store_rotated_def)

lemma apply_flip_store_rotated:
  "apply_tfms F_rejecting [Transform_call_deferred flip_lr (PFloat 1) True []] 0 True [] SizeNone []
     store_rotated rng_half = Inr (1, store_rotated_after, rng_half)"
  by (simp add: pipeline_defs eval_defs store_rotated_def store_rotated_after_def
      upt_rec [of 0] upt_rec [of 1] upt_rec [of 2] upt_rec [of "Suc 0"])

lemma apply_flip_store1:
  "apply_tfms F_rejecting [Transform_call_deferred flip_lr (PFloat 1) True []] 0 True [] SizeNone []
     store1 rng_half = Inr (1, store1_after, rng_half)"
  by (simp add: pipeline_defs eval_defs store1_def clean_image_def store1_after_def)



lemma resolve_tfm: "resolve rt g = Inr (rt', g') \<Longrightarrow> tfm rt' = tfm rt"
  by (auto simp: resolve_def bindE_Inr_iff split: if_splits)

lemma resolve_tfms_tfm: "resolve_tfms ts g = Inr (ts', g') \<Longrightarrow> map tfm ts' = map tfm ts"
proof (induction ts arbitrary: g ts')
  case Nil
  then show ?case by simp
next
  case (Cons t ts)
  then show ?case by (auto simp: bindE_Inr_iff dest: resolve_tfm)
qed

lemma sorted_tfms_permuted:
  assumes "mset tfms' = mset tfms" and "distinct (map (\<lambda>t. order (tfm t)) tfms)"
  shows "sorted_tfms tfms' = sorted_tfms tfms"
proof -
  from assms(2) have "inj_on (\<lambda>t. order (tfm t)) (set tfms)" by (simp add: distinct_map)
  with assms(1) show ?thesis
    unfolding sorted_tfms_def by (metis sort_key_eq_sort_key)
qed

lemma apply_tfms_sorted:
  "apply_tfms F tfms x do_resolve xtra sz kw s g
     = apply_tfms F (sorted_tfms tfms) x do_resolve xtra sz kw s g"
  by (simp add: apply_tfms_def sorted_tfms_idem sorted_tfms_Nil_iff)

lemmas run_defs = pipeline_defs eval_defs affine_def affine_mat_def eye3_def matmul_def row_times_def
  rotate_def rotate_func_def rotate_body_def arg_number_def listify_def listify_target_def dict_has_def

lemma apply_rotate_flip_store1:
  "apply_tfms F_rejecting
     [Transform_call_deferred flip_lr (PFloat 1) True [],
      Transform_call_deferred rotate (PFloat 1) True [(''degrees'', PList [PInt 180, PInt 180])]]
     0 True [] SizeNone [(''mode'', PStr ''nearest'')] store1 rng_half
   = Inr (1, store1_rotated_flipped, rng_half)"
  by (simp add: run_defs store1_def clean_image_def store1_rotated_flipped_def
      upt_rec [of 0] upt_rec [of 1] upt_rec [of 2] upt_rec [of "Suc 0"])

subsection \<open>Ordering of the categories\<close>

text \<open>
  C1 (as stated, refuted).  The claim orders the categories affine, coord, pixel padding,
  pixel, lighting.  The executor sorts the pixel transform \<^verbatim>\<open>flip_lr\<close> after the lighting
  transform \<^verbatim>\<open>contrast\<close>, whatever the order of the list: the priority of a pixel
  transform (10) is not below that of a lighting transform (8), and the priority of the affine
  class (5) is not below that of the coord class (4).
\<close>

theorem category_priority_counterexample:
  "map (\<lambda>t. func_name (func (tfm t)))
     (sorted_tfms [Transform_call_deferred flip_lr (PFloat 1) True [],
                   Transform_call_deferred contrast (PFloat 1) True [(''scale'', PFloat 2)]])
   = [''contrast'', ''flip_lr''] \<and>
   \<not> order flip_lr < order contrast \<and>
   \<not> class_order TfmAffine < class_order TfmCoord"
  by (simp add: sorted_tfms_def Transform_call_deferred_def flip_lr_def contrast_def
      Transform_init_def contrast_func_def flip_lr_func_def)

text \<open>
  C1 (amended).  The priorities of the descriptors are: pixel padding (registered with
  \<open>order = -10\<close>) below coord (4) below affine (5) below lighting (8) below pixel (10).
  The executor sorts the caller's list by these priorities, stably: the sorted list is a
  rearrangement of the caller's in which the priorities ascend and the transforms of one
  priority keep the order the caller gave them.  Unless it returns at once, the executor
  resolves the sorted list (which changes no descriptor and no position), clones the image,
  sets the sample options and the size, and then calls the transforms of the sorted list one
  after the other, from the first to the last, each on the result of the one before.  So
  coordinate warps run before affine transforms, these before lighting transforms and these
  before pixel transforms, padding first; and when no two transforms of the list have the
  same priority, every arrangement of the caller's list gives the same result.
\<close>

theorem category_priority:
  "order (Transform_init i0 TfmPixel f0 (Some (- 10))) < order (Transform_init i1 TfmCoord f1 None) \<and>
   order (Transform_init i1 TfmCoord f1 None) < order (Transform_init i2 TfmAffine f2 None) \<and>
   order (Transform_init i2 TfmAffine f2 None) < order (Transform_init i3 TfmLighting f3 None) \<and>
   order (Transform_init i3 TfmLighting f3 None) < order (Transform_init i4 TfmPixel f4 None) \<and>
   sorted (map (\<lambda>t. order (tfm t)) (sorted_tfms tfms)) \<and>
   mset (sorted_tfms tfms) = mset tfms \<and>
   filter (\<lambda>t. order (tfm t) = k) (sorted_tfms tfms) = filter (\<lambda>t. order (tfm t) = k) tfms \<and>
   apply_tfms F tfms x do_resolve xtra sz kw s g
     = apply_tfms F (sorted_tfms tfms) x do_resolve xtra sz kw s g \<and>
   (mset tfms' = mset tfms \<longrightarrow>
      map (\<lambda>t. order (tfm t)) (sorted_tfms tfms') = map (\<lambda>t. order (tfm t)) (sorted_tfms tfms)) \<and>
   (tfms \<noteq> [] \<or> size_truthy sz \<longrightarrow>
      apply_tfms F tfms x do_resolve xtra sz kw s g =
        bindE (if do_resolve then resolve_tfms (sorted_tfms tfms) g
               else Inr (sorted_tfms tfms, g)) (\<lambda>(rs, g').
        bindE (clone F x s) (\<lambda>(c, s1).
        bindE (if size_truthy sz
               then resize c sz (if kw \<noteq> [] then snd (set_sample c kw s1) else s1)
               else Inr (c, if kw \<noteq> [] then snd (set_sample c kw s1) else s1)) (\<lambda>(c', s3).
        bindE (apply_each F xtra rs c' s3) (\<lambda>(y, s4). Inr (y, s4, g')))))) \<and>
   (resolve_tfms ts g = Inr (rs, g1) \<longrightarrow> map tfm rs = map tfm ts) \<and>
   apply_each F xtra [] x s = Inr (x, s) \<and>
   apply_each F xtra (t # ts) x s =
     bindE (RandTransform_call F t x
              (case map_of xtra (tfm_id (tfm t)) of Some kwx \<Rightarrow> kwx | None \<Rightarrow> []) s)
       (\<lambda>(x', s'). apply_each F xtra ts x' s') \<and>
   (mset tfms' = mset tfms \<and> distinct (map (\<lambda>t. order (tfm t)) tfms) \<longrightarrow>
      apply_tfms F tfms' x do_resolve xtra sz kw s g = apply_tfms F tfms x do_resolve xtra sz kw s g)"
proof -
  have keys: "map (\<lambda>t. order (tfm t)) (sorted_tfms tfms') = map (\<lambda>t. order (tfm t)) (sorted_tfms tfms)"
    if "mset tfms' = mset tfms"
  proof -
    have "sort (map (\<lambda>t. order (tfm t)) tfms') = map (\<lambda>t. order (tfm t)) (sorted_tfms ys)"
      if "mset ys = mset tfms'" for ys
      unfolding sorted_tfms_def
      by (rule properties_for_sort) (simp_all add: that)
    from this [of tfms'] this [of tfms] that show ?thesis by simp
  qed
  have chain: "order (Transform_init i0 TfmPixel f0 (Some (- 10))) < order (Transform_init i1 TfmCoord f1 None)"
    "order (Transform_init i1 TfmCoord f1 None) < order (Transform_init i2 TfmAffine f2 None)"
    "order (Transform_init i2 TfmAffine f2 None) < order (Transform_init i3 TfmLighting f3 None)"
    "order (Transform_init i3 TfmLighting f3 None) < order (Transform_init i4 TfmPixel f4 None)"
    by (simp_all add: Transform_init_def)
  have srt: "sorted (map (\<lambda>t. order (tfm t)) (sorted_tfms tfms))"
    "mset (sorted_tfms tfms) = mset tfms"
    "filter (\<lambda>t. order (tfm t) = k) (sorted_tfms tfms) = filter (\<lambda>t. order (tfm t) = k) tfms"
    by (simp_all add: sorted_tfms_def sort_key_stable)
  have run: "apply_tfms F tfms x do_resolve xtra sz kw s g =
        bindE (if do_resolve then resolve_tfms (sorted_tfms tfms) g
               else Inr (sorted_tfms tfms, g)) (\<lambda>(rs, g').
        bindE (clone F x s) (\<lambda>(c, s1).
        bindE (if size_truthy sz
               then resize c sz (if kw \<noteq> [] then snd (set_sample c kw s1) else s1)
               else Inr (c, if kw \<noteq> [] then snd (set_sample c kw s1) else s1)) (\<lambda>(c', s3).
        bindE (apply_each F xtra rs c' s3) (\<lambda>(y, s4). Inr (y, s4, g')))))"
    if "tfms \<noteq> [] \<or> size_truthy sz"
    using that by (simp add: apply_tfms_def Let_def)
  have each: "apply_each F xtra (t # ts) x s =
     bindE (RandTransform_call F t x
              (case map_of xtra (tfm_id (tfm t)) of Some kwx \<Rightarrow> kwx | None \<Rightarrow> []) s)
       (\<lambda>(x', s'). apply_each F xtra ts x' s')"
    by (simp split: option.splits)
  have perm: "apply_tfms F tfms' x do_resolve xtra sz kw s g = apply_tfms F tfms x do_resolve xtra sz kw s g"
    if "mset tfms' = mset tfms" "distinct (map (\<lambda>t. order (tfm t)) tfms)"
    using sorted_tfms_permuted [OF that] apply_tfms_sorted [of F tfms'] apply_tfms_sorted [of F tfms]
    by simp
  have nil: "apply_each F xtra [] x s = Inr (x, s)" by simp
  have res: "map tfm rs = map tfm ts" if "resolve_tfms ts g = Inr (rs, g1)"
    using that by (rule resolve_tfms_tfm)
  note same = apply_tfms_sorted [of F tfms x do_resolve xtra sz kw s g]
  from chain srt keys run each perm nil res same show ?thesis by blast
qed

theorem category_priority_witness:
  "mset [Transform_call_deferred rotate (PFloat 1) True [(''degrees'', PList [PInt 180, PInt 180])],
         Transform_call_deferred flip_lr (PFloat 1) True []]
     = mset [Transform_call_deferred flip_lr (PFloat 1) True [],
             Transform_call_deferred rotate (PFloat 1) True [(''degrees'', PList [PInt 180, PInt 180])]] \<and>
   distinct (map (\<lambda>t. order (tfm t))
     [Transform_call_deferred flip_lr (PFloat 1) True [],
      Transform_call_deferred rotate (PFloat 1) True [(''degrees'', PList [PInt 180, PInt 180])]]) \<and>
   apply_tfms F_rejecting
     [Transform_call_deferred rotate (PFloat 1) True [(''degrees'', PList [PInt 180, PInt 180])],
      Transform_call_deferred flip_lr (PFloat 1) True []]
     0 True [] SizeNone [(''mode'', PStr ''nearest'')] store1 rng_half
   = Inr (1, store1_rotated_flipped, rng_half) \<and>
   apply_tfms F_rejecting
     [Transform_call_deferred flip_lr (PFloat 1) True [],
      Transform_call_deferred rotate (PFloat 1) True [(''degrees'', PList [PInt 180, PInt 180])]]
     0 True [] SizeNone [(''mode'', PStr ''nearest'')] store1 rng_half
   = Inr (1, store1_rotated_flipped, rng_half) \<and>
   map (\<lambda>t. func_name (func (tfm t)))
     (sorted_tfms
        [Transform_call_deferred flip_lr (PFloat 1) True [],
         Transform_call_deferred rotate (PFloat 1) True [(''degrees'', PList [PInt 180, PInt 180])]])
   = [''rotate'', ''flip_lr'']"
proof -
  let ?a = "Transform_call_deferred flip_lr (PFloat 1) True []"
  let ?b = "Transform_call_deferred rotate (PFloat 1) True [(''degrees'', PList [PInt 180, PInt 180])]"
  have m: "mset [?b, ?a] = mset [?a, ?b]" by (simp add: add_mset_commute)
  have d: "distinct (map (\<lambda>t. order (tfm t)) [?a, ?b])"
    by (simp add: Transform_call_deferred_def flip_lr_def rotate_def Transform_init_def)
  have n: "map (\<lambda>t. func_name (func (tfm t))) (sorted_tfms [?a, ?b]) = [''rotate'', ''flip_lr'']"
    by (simp add: sorted_tfms_def Transform_call_deferred_def flip_lr_def rotate_def
        Transform_init_def rotate_func_def flip_lr_func_def)
  from category_priority
         [where tfms = "[?a, ?b]" and tfms' = "[?b, ?a]" and F = F_rejecting and x = 0
            and do_resolve = True and xtra = "[]" and sz = SizeNone
            and kw = "[(''mode'', PStr ''nearest'')]" and s = store1 and g = rng_half] m d
  have "apply_tfms F_rejecting [?b, ?a] 0 True [] SizeNone [(''mode'', PStr ''nearest'')] store1 rng_half
      = apply_tfms F_rejecting [?a, ?b] 0 True [] SizeNone [(''mode'', PStr ''nearest'')] store1 rng_half"
    by blast
  with apply_rotate_flip_store1 m d n show ?thesis by simp
qed

subsection \<open>The short-circuit of the executor\<close>

text \<open>
  C6.  With an empty list of transforms and no target size, \<open>apply_tfms\<close> returns the
  reference it was given, and neither the store (no image or tensor is allocated or
  written) nor the random sources have changed.
\<close>

theorem apply_tfms_noop:
  "apply_tfms F [] x do_resolve xtra SizeNone kw s g = Inr (x, s, g)"
  by (simp add: apply_tfms_def)

theorem apply_tfms_noop_witness:
  "apply_tfms F_rejecting [] 0 True [] SizeNone [] store1 rng_half = Inr (0, store1, rng_half)"
  by (rule apply_tfms_noop)

subsection \<open>Length matching and the draws\<close>




subsection \<open>The probability boundary\<close>

text \<open>
  C8.  When \<open>is_random\<close> holds and the random source hands out numbers of \<open>[0, 1)\<close>,
  a call of \<open>resolve\<close> that returns has drawn the parameters (first those given as raw
  values, then those left over) and then \<open>do_run = rand_bool p\<close>: with \<open>g3\<close> the source as
  the parameter draws left it, \<open>do_run\<close> is true exactly when the next number of \<open>g3\<close>
  is below \<open>p\<close>, and that number is consumed.  When no parameter is drawn this is the next
  number of the caller's source.  With \<open>p = 0\<close> the outcome is false and with \<open>p = 1\<close> it
  is true, whatever the draw.
\<close>

theorem resolve_probability_boundary:
  assumes "is_random rt" and "in_unit (py_source g)" and "resolve rt g = Inr (rt', g')"
  shows "(\<exists>res1 g1 g3 q.
            resolve_kwargs (params (tfm rt)) (kwargs rt) [] g = Inr (res1, g1) \<and>
            resolve_params (params (tfm rt)) (resolve_def_args (def_args (tfm rt)) res1) g1
              = Inr (resolved rt', g3) \<and>
            in_unit (py_source g3) \<and>
            as_number (p rt) = Inr q \<and>
            rand_bool (p rt) PNone g3 = Inr (PBool (py_source g3 0 < q), g') \<and>
            do_run rt' = (py_source g3 0 < q) \<and>
            g' = snd (random_random g3)) \<and>
         (kwargs rt = [] \<and> params (tfm rt) = [] \<longrightarrow>
            (\<exists>q. as_number (p rt) = Inr q \<and> do_run rt' = (py_source g 0 < q)) \<and>
            g' = snd (random_random g)) \<and>
         (\<exists>g3 b g4. rand_bool (p rt) PNone g3 = Inr (b, g4) \<and> in_unit (py_source g3)
            \<and> do_run rt' = (b = PBool True) \<and> g' = g4) \<and>
         (as_number (p rt) = Inr 0 \<longrightarrow> \<not> do_run rt') \<and>
         (as_number (p rt) = Inr 1 \<longrightarrow> do_run rt')"
proof -
  from assms obtain res1 g1 res3 g3 b g4 where
    k: "resolve_kwargs (params (tfm rt)) (kwargs rt) [] g = Inr (res1, g1)" and
    ps: "resolve_params (params (tfm rt)) (resolve_def_args (def_args (tfm rt)) res1) g1 = Inr (res3, g3)" and
    rb: "rand_bool (p rt) PNone g3 = Inr (b, g4)" and
    rt': "rt' = rt\<lparr>resolved := res3, do_run := (b = PBool True)\<rparr>" and g': "g' = g4"
    by (auto simp: resolve_def bindE_Inr_iff)
  from k assms(2) have "in_unit (py_source g1)" by (rule resolve_kwargs_in_unit)
  with ps have u3: "in_unit (py_source g3)" by (rule resolve_params_in_unit)
  then have range: "0 \<le> py_source g3 0" "py_source g3 0 < 1" by (simp_all add: in_unit_def)
  from rb obtain q where q: "as_number (p rt) = Inr q"
    by (auto simp: rand_bool_def bindE_Inr_iff)
  from rand_bool_scalar [OF rb q] have b: "b = PBool (py_source g3 0 < q)" .
  from rb q have g4: "g4 = snd (random_random g3)"
    by (auto simp: rand_bool_def uniform_def bindE_Inr_iff random_random_def)
  have res: "resolved rt' = res3" and dr: "do_run rt' = (py_source g3 0 < q)"
    using rt' b by simp_all
  have first: "\<exists>res1 g1 g3 q.
            resolve_kwargs (params (tfm rt)) (kwargs rt) [] g = Inr (res1, g1) \<and>
            resolve_params (params (tfm rt)) (resolve_def_args (def_args (tfm rt)) res1) g1
              = Inr (resolved rt', g3) \<and>
            in_unit (py_source g3) \<and>
            as_number (p rt) = Inr q \<and>
            rand_bool (p rt) PNone g3 = Inr (PBool (py_source g3 0 < q), g') \<and>
            do_run rt' = (py_source g3 0 < q) \<and>
            g' = snd (random_random g3)"
    using k ps u3 q rb b g' g4 res dr by blast
  have second: "(\<exists>q. as_number (p rt) = Inr q \<and> do_run rt' = (py_source g 0 < q)) \<and>
            g' = snd (random_random g)" if "kwargs rt = []" "params (tfm rt) = []"
  proof -
    from k that have "g1 = g" by simp
    with ps that have "g3 = g" by simp
    with q dr g' g4 show ?thesis by blast
  qed
  have third: "\<exists>g3 b g4. rand_bool (p rt) PNone g3 = Inr (b, g4) \<and> in_unit (py_source g3)
            \<and> do_run rt' = (b = PBool True) \<and> g' = g4"
    using rb u3 rt' g' by auto
  have "\<not> do_run rt'" if "as_number (p rt) = Inr 0"
    using that q dr range by simp
  moreover have "do_run rt'" if "as_number (p rt) = Inr 1"
    using that q dr range by simp
  ultimately show ?thesis using first second third by blast
qed

theorem resolve_probability_boundary_witness:
  "is_random (Transform_call_deferred flip_lr (PInt 0) True []) \<and>
   in_unit (py_source rng_half) \<and>
   (\<exists>rt' g'. resolve (Transform_call_deferred flip_lr (PInt 0) True []) rng_half = Inr (rt', g')
       \<and> \<not> do_run rt') \<and>
   (\<exists>rt' g'. resolve (Transform_call_deferred flip_lr (PInt 1) True []) rng_half = Inr (rt', g')
       \<and> do_run rt') \<and>
   (\<exists>rt' g'. resolve (Transform_call_deferred flip_lr (PFloat (1 / 2)) True []) rng_half = Inr (rt', g')
       \<and> \<not> do_run rt') \<and>
   in_unit (py_source rng_quarter) \<and>
   (\<exists>rt' g'. resolve (Transform_call_deferred flip_lr (PFloat (1 / 2)) True []) rng_quarter = Inr (rt', g')
       \<and> do_run rt')"
proof -
  let ?r0 = "Transform_call_deferred flip_lr (PInt 0) True []"
  let ?r1 = "Transform_call_deferred flip_lr (PInt 1) True []"
  let ?rh = "Transform_call_deferred flip_lr (PFloat (1 / 2)) True []"
  have u: "in_unit (py_source rng_half)" by (simp add: in_unit_def rng_half_def)
  have uq: "in_unit (py_source rng_quarter)" by (simp add: in_unit_def rng_quarter_def)
  have i0: "is_random ?r0" and i1: "is_random ?r1" and ih: "is_random ?rh"
    by (simp_all add: Transform_call_deferred_def)
  obtain a0 h0 where e0: "resolve ?r0 rng_half = Inr (a0, h0)"
    by (simp add: resolve_def Transform_call_deferred_def flip_lr_def Transform_init_def
        flip_lr_func_def rand_bool_def uniform_def random_random_def rng_half_def)
  obtain a1 h1 where e1: "resolve ?r1 rng_half = Inr (a1, h1)"
    by (simp add: resolve_def Transform_call_deferred_def flip_lr_def Transform_init_def
        flip_lr_func_def rand_bool_def uniform_def random_random_def rng_half_def)
  obtain a2 h2 where e2: "resolve ?rh rng_half = Inr (a2, h2)"
    by (simp add: resolve_def Transform_call_deferred_def flip_lr_def Transform_init_def
        flip_lr_func_def rand_bool_def uniform_def random_random_def rng_half_def)
  obtain a3 h3 where e3: "resolve ?rh rng_quarter = Inr (a3, h3)"
    by (simp add: resolve_def Transform_call_deferred_def flip_lr_def Transform_init_def
        flip_lr_func_def rand_bool_def uniform_def random_random_def rng_quarter_def)
  have p0: "as_number (p ?r0) = Inr 0" and p1: "as_number (p ?r1) = Inr 1"
    and ph: "as_number (p ?rh) = Inr (1 / 2)"
    by (simp_all add: Transform_call_deferred_def)
  have nodraws: "kwargs ?rh = [] \<and> params (tfm ?rh) = []"
    by (simp add: Transform_call_deferred_def flip_lr_def Transform_init_def flip_lr_func_def)
  from resolve_probability_boundary [OF i0 u e0] p0 have d0: "\<not> do_run a0" by blast
  from resolve_probability_boundary [OF i1 u e1] p1 have d1: "do_run a1" by blast
  from resolve_probability_boundary [OF ih u e2] nodraws ph
  have "do_run a2 = (py_source rng_half 0 < 1 / 2)" by auto
  then have d2: "\<not> do_run a2" by (simp add: rng_half_def)
  from resolve_probability_boundary [OF ih uq e3] nodraws ph
  have "do_run a3 = (py_source rng_quarter 0 < 1 / 2)" by auto
  then have d3: "do_run a3" by (simp add: rng_quarter_def)
  from d0 d1 d2 d3 u uq i0 e0 e1 e2 e3 show ?thesis by blast
qed

subsection \<open>An instance that was never resolved\<close>

text \<open>
  C10.  An instance as \<^verbatim>\<open>Transform.__call__\<close> builds it has an empty \<open>resolved\<close>
  mapping and \<open>do_run\<close> true.  Calling it on an image runs the transform with the keyword
  arguments of the call alone (a dictionary, so its keys are distinct; \<open>p\<close> and
  \<open>is_random\<close> are taken by \<^verbatim>\<open>Transform.__call__\<close>): neither the arguments the
  instance was declared with, nor its probability, nor the defaults and the annotations
  recorded in the descriptor have any influence.
\<close>

theorem unresolved_call:
  "resolved (Transform_call_deferred t pr rnd kw0) = [] \<and>
   do_run (Transform_call_deferred t pr rnd kw0) \<and>
   (distinct (map fst kw) \<longrightarrow>
      RandTransform_call F (Transform_call_deferred t pr rnd kw0) x kw s
        = calc F t x (filter (\<lambda>kv. fst kv \<noteq> ''p'' \<and> fst kv \<noteq> ''is_random'') kw) s) \<and>
   RandTransform_call F (Transform_call_deferred (t\<lparr>params := ps, def_args := ds\<rparr>) pr rnd kw0) x kw s
     = RandTransform_call F (Transform_call_deferred t pr rnd kw0) x kw s"
  using dict_merge_distinct [of "[]" kw]
  by (simp add: Transform_call_deferred_def RandTransform_call_def Transform_call_image_def calc_def)

theorem unresolved_call_witness:
  "distinct (map fst [(''scale'', PFloat 2)]) \<and>
   RandTransform_call F_rejecting (Transform_call_deferred contrast (PInt 0) True [(''scale'', PFloat 3)])
       0 [(''scale'', PFloat 2)] store1
     = calc F_rejecting contrast 0 [(''scale'', PFloat 2)] store1"
  using unresolved_call [of contrast "PInt 0" True "[(''scale'', PFloat 3)]" "[(''scale'', PFloat 2)]"
      F_rejecting 0 store1]
  by simp

subsection \<open>Nearest mode with reflect\<close>

text \<open>
  C2 (as stated, refuted).  The claim says that nearest mode with edge handling
  \<open>reflect\<close> fails.  It returns: here the coordinate \<open>5\<close>, far outside, reads the last
  pixel.
\<close>

theorem nearest_reflect_counterexample:
  "grid_sample F_rejecting [[[10, 20, 30]]] [[(- 1, - 1), (0, - 1), (5, - 1)]]
     (PStr ''nearest'') (PStr ''reflect'') = Inr [[[10, 30, 30]]]"
  by (simp add: grid_sample_def grid_sample_nearest_def shape_def lookup_pixel_def pixel_index_def
      outside_def clamp_def round_half_even_def)

text \<open>
  C2 (amended).  Nearest mode with edge handling \<open>reflect\<close> does what it does with
  \<open>border\<close>: on an image with at least one row and one column it returns, and every output
  pixel is the input pixel at the rounded coordinates clamped into the image.
\<close>

theorem nearest_reflect:
  "grid_sample F x coords (PStr ''nearest'') (PStr ''reflect'')
     = grid_sample F x coords (PStr ''nearest'') (PStr ''border'') \<and>
   (shape x = (ch, h, w) \<and> 0 < h \<and> 0 < w \<longrightarrow>
      grid_sample F x coords (PStr ''nearest'') (PStr ''reflect'')
        = Inr (map (\<lambda>chan.
                 map (map (\<lambda>c. chan ! nat (clamp 0 (int h - 1) (snd (pixel_index h w c)))
                                    ! nat (clamp 0 (int w - 1) (fst (pixel_index h w c)))))
                   coords) x))"
  by (simp add: grid_sample_def grid_sample_nearest_clamped)

theorem nearest_reflect_witness:
  "shape [[[10, 20, 30]]] = (1, 1, 3) \<and> (0::nat) < 1 \<and> (0::nat) < 3 \<and>
   grid_sample F_rejecting [[[10, 20, 30]]] [[(1, - 1)]] (PStr ''nearest'') (PStr ''reflect'')
     = Inr [[[30]]]"
  using nearest_reflect [of F_rejecting "[[[10, 20, 30]]]" "[[(1, - 1)]]" 1 1 3, THEN conjunct2]
  by (simp add: shape_def pixel_index_def clamp_def round_half_even_def)

subsection \<open>The identity grid\<close>

text \<open>
  C9 (the code at a failing input).  For the image \<open>[[[10, 20, 30], [40, 50, 60]]]\<close> of
  shape \<open>(1, 2, 3)\<close>, \<open>affine_grid\<close> gives the identity grid, with the abscissas
  \<open>-1, 0, 1\<close> and the ordinates \<open>-1, 1\<close>.  Resampled through it in nearest mode the image
  does not come back: the middle column is lost (the abscissa \<open>0\<close> is scaled to \<open>1.5\<close>
  and rounded to \<open>2\<close>), and with zero filling the last column and the last row are zeroed
  (the coordinate \<open>1\<close> is scaled to the length of the axis, which is outside).
\<close>

theorem identity_grid_nearest_failing:
  "affine_grid (shape [[[10, 20, 30], [40, 50, 60]]])
     = [[(- 1, - 1), (0, - 1), (1, - 1)], [(- 1, 1), (0, 1), (1, 1)]] \<and>
   grid_sample F_rejecting [[[10, 20, 30], [40, 50, 60]]]
       (affine_grid (shape [[[10, 20, 30], [40, 50, 60]]])) (PStr ''nearest'') (PStr ''reflect'')
     = Inr [[[10, 30, 30], [40, 60, 60]]] \<and>
   grid_sample_nearest [[[10, 20, 30], [40, 50, 60]]]
       (affine_grid (shape [[[10, 20, 30], [40, 50, 60]]])) (PStr ''zeros'')
     = Inr [[[10, 30, 0], [0, 0, 0]]]"
  by (simp add: grid_sample_def grid_sample_nearest_def shape_def lookup_pixel_def pixel_index_def
      outside_def clamp_def round_half_even_def affine_grid_def linear_points_def upt_rec [of 0]
      upt_rec [of 1] upt_rec [of 2] upt_rec [of "Suc 0"] floor_minus_one_real)

subsection \<open>Composition of affine transforms\<close>

text \<open>
  C4.  The accessor \<open>affine\<close> multiplies the pending matrix (the identity when there is
  none) on the right by the matrix of the function.  Applying \<open>f\<close> and then \<open>g\<close>
  leaves the image as one application of a function whose matrix is the product of theirs
  does, and so does reading the pixels afterwards, which materializes: the same pixels, the
  same store, the same error if there is one.  (Over exact reals; the equality is exact.)
\<close>

theorem affine_composes:
  assumes "f kwf = Inr A" and "g kwg = Inr B" and "h kwh = Inr (matmul A B)"
  shows "affine (AffineFunc f) kwf r s
           = Inr (r, upd_image r (\<lambda>i. i\<lparr>priv_affine_mat := Some (matmul (affine_mat i) A)\<rparr>) s) \<and>
         bindE (affine (AffineFunc f) kwf r s) (\<lambda>(r1, s1). affine (AffineFunc g) kwg r1 s1)
           = affine (AffineFunc h) kwh r s \<and>
         bindE (affine (AffineFunc f) kwf r s) (\<lambda>(r1, s1).
           bindE (affine (AffineFunc g) kwg r1 s1) (\<lambda>(r2, s2). px F r2 s2))
           = bindE (affine (AffineFunc h) kwh r s) (\<lambda>(r1, s1). px F r1 s1)"
proof -
  have two: "bindE (affine (AffineFunc f) kwf r s) (\<lambda>(r1, s1). affine (AffineFunc g) kwg r1 s1)
           = affine (AffineFunc h) kwh r s"
    using assms by (simp add: affine_def upd_image_twice affine_mat_def matmul_assoc)
  have "bindE (affine (AffineFunc f) kwf r s) (\<lambda>(r1, s1).
           bindE (affine (AffineFunc g) kwg r1 s1) (\<lambda>(r2, s2). px F r2 s2))
        = bindE (bindE (affine (AffineFunc f) kwf r s) (\<lambda>(r1, s1). affine (AffineFunc g) kwg r1 s1))
            (\<lambda>(r2, s2). px F r2 s2)"
    using assms by (simp add: affine_def)
  with two show ?thesis using assms by (simp add: affine_def)
qed

theorem affine_composes_witness:
  "zoom_body [(''scale'', PFloat 2)] = Inr ((1 / 2, 0, 0), (0, 1 / 2, 0), (0, 0, 1)) \<and>
   zoom_body [(''scale'', PFloat 4)] = Inr ((1 / 4, 0, 0), (0, 1 / 4, 0), (0, 0, 1)) \<and>
   zoom_body [(''scale'', PFloat 8)]
     = Inr (matmul ((1 / 2, 0, 0), (0, 1 / 2, 0), (0, 0, 1)) ((1 / 4, 0, 0), (0, 1 / 4, 0), (0, 0, 1))) \<and>
   bindE (affine (AffineFunc zoom_body) [(''scale'', PFloat 2)] 0 store1) (\<lambda>(r1, s1).
     bindE (affine (AffineFunc zoom_body) [(''scale'', PFloat 4)] r1 s1) (\<lambda>(r2, s2).
       px F_rejecting r2 s2))
   = bindE (affine (AffineFunc zoom_body) [(''scale'', PFloat 8)] 0 store1) (\<lambda>(r1, s1).
       px F_rejecting r1 s1)"
proof -
  have a: "zoom_body [(''scale'', PFloat 2)] = Inr ((1 / 2, 0, 0), (0, 1 / 2, 0), (0, 0, 1))"
    by (simp add: zoom_body_def zoom_defaults_def bind_args_def arg_number_def get_zoom_mat_def)
  have b: "zoom_body [(''scale'', PFloat 4)] = Inr ((1 / 4, 0, 0), (0, 1 / 4, 0), (0, 0, 1))"
    by (simp add: zoom_body_def zoom_defaults_def bind_args_def arg_number_def get_zoom_mat_def)
  have c: "zoom_body [(''scale'', PFloat 8)]
     = Inr (matmul ((1 / 2, 0, 0), (0, 1 / 2, 0), (0, 0, 1)) ((1 / 4, 0, 0), (0, 1 / 4, 0), (0, 0, 1)))"
    by (simp add: zoom_body_def zoom_defaults_def bind_args_def arg_number_def get_zoom_mat_def
        matmul_def row_times_def)
  from affine_composes
         [where f = zoom_body and kwf = "[(''scale'', PFloat 2)]"
            and g = zoom_body and kwg = "[(''scale'', PFloat 4)]"
            and h = zoom_body and kwh = "[(''scale'', PFloat 8)]"
            and r = 0 and s = store1 and F = F_rejecting, OF a b c] a b c
  show ?thesis by blast
qed

subsection \<open>Materialization reconciles the deferred state\<close>

text \<open>
  C5.  After a \<open>refresh\<close> that returns, nothing is pending on the image: no logits, no
  flow field, no affine matrix.  The pixels it then has are: the sigmoid of the pending
  logits (the old pixels if there were none), and, when a matrix or a flow field was pending,
  these resampled once, through the pending flow field (the identity grid if there was none)
  with the pending matrix folded into it.
\<close>

theorem refresh_reconciles:
  assumes "r < length (images s)"
    and "\<forall>l. priv_logit_px (images s ! r) = Some l \<longrightarrow> l < length (tensors s)"
    and "refresh F r s = Inr s'"
  shows "priv_logit_px (images s' ! r) = None \<and>
         priv_flow (images s' ! r) = None \<and>
         priv_affine_mat (images s' ! r) = None \<and>
         (let img = images s ! r;
              px0 = (case priv_logit_px img of
                       None \<Rightarrow> tensors s ! priv_px img
                     | Some l \<Rightarrow> map_tensor sigmoid (tensors s ! l))
          in if priv_affine_mat img \<noteq> None \<or> priv_flow img \<noteq> None then
               grid_sample_kw F px0
                 (affine_mult (case priv_flow img of None \<Rightarrow> affine_grid (shape px0) | Some fl \<Rightarrow> fl)
                    (priv_affine_mat img))
                 (sample_kwargs img)
               = Inr (tensors s' ! priv_px (images s' ! r))
             else tensors s' ! priv_px (images s' ! r) = px0)"
proof -
  let ?s1 = "flush_logit r s"
  note ff = flush_logit_fields [OF assms(1)]
  note fp = flush_logit_px [OF assms(1,2)]
  show ?thesis
  proof (cases "priv_affine_mat (images s ! r) \<noteq> None \<or> priv_flow (images s ! r) \<noteq> None")
    case False
    then have none: "priv_affine_mat (images s ! r) = None" "priv_flow (images s ! r) = None"
      by blast+
    with assms(3) ff have "s' = ?s1" by (simp add: refresh_def)
    with none ff fp show ?thesis by (simp add: Let_def)
  next
    case True
    define px0 where "px0 = (case priv_logit_px (images s ! r) of
                       None \<Rightarrow> tensors s ! priv_px (images s ! r)
                     | Some l \<Rightarrow> map_tensor sigmoid (tensors s ! l))"
    define f1 where "f1 = affine_mult
        (case priv_flow (images s ! r) of None \<Rightarrow> affine_grid (shape px0) | Some fl \<Rightarrow> fl)
        (priv_affine_mat (images s ! r))"
    define s2 where "s2 = upd_image r (\<lambda>i. i\<lparr>priv_flow := Some f1, priv_affine_mat := None\<rparr>) ?s1"
    have fp': "tensors ?s1 ! priv_px (images ?s1 ! r) = px0"
      using fp by (simp add: px0_def)
    have fl: "flow r ?s1 = (f1, s2)"
      using ff(2,3) fp'
      by (simp add: flow_def Image_shape_def Let_def affine_mult_def f1_def s2_def split: option.splits)
    have s2: "tensors s2 = tensors ?s1" "priv_px (images s2 ! r) = priv_px (images ?s1 ! r)"
      "sample_kwargs (images s2 ! r) = sample_kwargs (images s ! r)"
      "length (images s2) = length (images s)"
      "priv_logit_px (images s2 ! r) = None" "priv_affine_mat (images s2 ! r) = None"
      using ff assms(1) by (simp_all add: upd_image_def s2_def)
    have pending: "priv_affine_mat (images ?s1 ! r) \<noteq> None \<or> priv_flow (images ?s1 ! r) \<noteq> None"
      using True ff(2,3) by simp
    from assms(3) pending have
      "bindE (grid_sample_kw F (tensors s2 ! priv_px (images s2 ! r)) f1 (sample_kwargs (images s2 ! r)))
         (\<lambda>t. let (a, s3) = new_tensor t s2
              in Inr (upd_image r (\<lambda>i. i\<lparr>priv_px := a, sample_kwargs := [], priv_flow := None\<rparr>) s3))
       = Inr s'"
      unfolding refresh_def Let_def fl by (simp del: not_None_eq)
    then obtain t where
      gs0: "grid_sample_kw F (tensors s2 ! priv_px (images s2 ! r)) f1 (sample_kwargs (images s2 ! r)) = Inr t"
      and s': "s' = upd_image r (\<lambda>i. i\<lparr>priv_px := length (tensors s2), sample_kwargs := [], priv_flow := None\<rparr>)
                     (s2\<lparr>tensors := tensors s2 @ [t]\<rparr>)"
      unfolding bindE_Inr_iff by (auto simp: new_tensor_def)
    from gs0 have gs: "grid_sample_kw F px0 f1 (sample_kwargs (images s ! r)) = Inr t"
      unfolding s2(1,2,3) fp' .
    have img': "images s' ! r
        = (images s2 ! r)\<lparr>priv_px := length (tensors s2), sample_kwargs := [], priv_flow := None\<rparr>"
      and ten': "tensors s' = tensors s2 @ [t]"
      using s2(4) assms(1) by (simp_all add: s' upd_image_def)
    have "tensors s' ! priv_px (images s' ! r) = t"
      by (simp add: img' ten')
    with gs have "grid_sample_kw F px0 f1 (sample_kwargs (images s ! r))
                    = Inr (tensors s' ! priv_px (images s' ! r))"
      by simp
    moreover have "priv_logit_px (images s' ! r) = None" "priv_flow (images s' ! r) = None"
      "priv_affine_mat (images s' ! r) = None"
      using s2(5,6) by (simp_all add: img')
    ultimately show ?thesis
      unfolding Let_def px0_def [symmetric] f1_def [symmetric] using True by (simp del: not_None_eq)
  qed
qed

theorem refresh_reconciles_witness:
  "0 < length (images store_pending) \<and>
   priv_logit_px (images store_pending ! 0) = Some 0 \<and> 0 < length (tensors store_pending) \<and>
   (\<exists>s'. refresh F_rejecting 0 store_pending = Inr s' \<and>
      priv_logit_px (images s' ! 0) = None \<and> priv_flow (images s' ! 0) = None \<and>
      priv_affine_mat (images s' ! 0) = None)"
proof -
  have v: "0 < length (images store_pending)"
    and l: "\<forall>l. priv_logit_px (images store_pending ! 0) = Some l \<longrightarrow> l < length (tensors store_pending)"
    by (simp_all add: store_pending_def)
  have "priv_logit_px (images store_pending ! 0) = Some 0" "0 < length (tensors store_pending)"
    by (simp_all add: store_pending_def)
  with refresh_reconciles [OF v l refresh_store_pending] v refresh_store_pending
  show ?thesis by blast
qed

subsection \<open>Isolation of the original from the pipeline\<close>

text \<open>
  C3 (as stated, refuted).  The claim includes an original with pending state.  Take the
  image \<open>[[[10, 20, 30], [40, 50, 60]]]\<close>, ask for the nearest mode and rotate it by 180
  degrees: the matrix is pending and the raw pixels are as they were.  Now \<open>apply_tfms\<close>
  with the one transform \<^verbatim>\<open>flip_lr()\<close>: \<^verbatim>\<open>clone\<close> reads \<^verbatim>\<open>self.data\<close>, which
  refreshes the original, whose raw pixels are then \<open>[[[60, 60, 40], [30, 30, 10]]]\<close> and whose pending matrix
  and sample options are gone.
\<close>

theorem clone_isolation_counterexample:
  "Transform_call_image F_rejecting rotate 0 [(''degrees'', PFloat 180)]
     (snd (set_sample 0 [(''mode'', PStr ''nearest'')] store1)) = Inr (0, store_rotated) \<and>
   apply_tfms F_rejecting [Transform_call_deferred flip_lr (PFloat 1) True []] 0 True [] SizeNone []
     store_rotated rng_half = Inr (1, store_rotated_after, rng_half) \<and>
   tensors store_rotated ! priv_px (images store_rotated ! 0) = [[[10, 20, 30], [40, 50, 60]]] \<and>
   tensors store_rotated_after ! priv_px (images store_rotated_after ! 0)
     = [[[60, 60, 40], [30, 30, 10]]] \<and>
   images store_rotated_after ! 0 \<noteq> images store_rotated ! 0"
  using rotate_store1 apply_flip_store_rotated
  by (simp add: store_rotated_def store_rotated_after_def)

text \<open>
  C3 (amended).  For an image with nothing pending (no logits, no flow field, no affine
  matrix) and every list of transforms: after \<open>apply_tfms\<close> the original image object
  has the fields it had, its raw pixel tensor has the content it had, and so has every other
  image and tensor that existed before; when the list is not empty (or a size is given) the
  result is a new image object.
\<close>

theorem clone_isolation:
  assumes "r < length (images s)" and "priv_px (images s ! r) < length (tensors s)"
    and "priv_logit_px (images s ! r) = None" and "priv_flow (images s ! r) = None"
    and "priv_affine_mat (images s ! r) = None"
    and "apply_tfms F tfms r do_resolve xtra sz kw s g = Inr (y, s', g')"
  shows "images s' ! r = images s ! r \<and>
         tensors s' ! priv_px (images s' ! r) = tensors s ! priv_px (images s ! r) \<and>
         take (length (images s)) (images s') = images s \<and>
         take (length (tensors s)) (tensors s') = tensors s \<and>
         (tfms \<noteq> [] \<or> size_truthy sz \<longrightarrow> y = length (images s))"
proof (cases "tfms \<noteq> [] \<or> size_truthy sz")
  case False
  with assms(6) show ?thesis by (simp add: apply_tfms_def)
next
  case True
  with assms(6) obtain c s1 c' s3 ts where
    cl: "clone F r s = Inr (c, s1)"
    and rs: "(if size_truthy sz
              then resize c sz (if kw \<noteq> [] then snd (set_sample c kw s1) else s1)
              else Inr (c, if kw \<noteq> [] then snd (set_sample c kw s1) else s1)) = Inr (c', s3)"
    and ap: "apply_each F xtra ts c' s3 = Inr (y, s')"
    by (auto simp: apply_tfms_def bindE_Inr_iff Let_def simp del: set_sample_def)
  from clone_isolated [OF assms(1-5) cl] have c: "c = length (images s)" and i1: "isolated s c s1"
    by blast+
  from i1 have "isolated s c (if kw \<noteq> [] then snd (set_sample c kw s1) else s1)"
    by (simp add: isolated_set_sample)
  with rs have "c' = c \<and> isolated s c s3"
    by (auto split: if_splits dest: isolated_resize)
  with ap isolated_apply_each have y: "y = c" and i: "isolated s c s'" by blast+
  from i have ti: "take (length (images s)) (images s') = images s"
    and tt: "take (length (tensors s)) (tensors s') = tensors s"
    by (simp_all add: isolated_def)
  from assms(1) have "images s' ! r = take (length (images s)) (images s') ! r" by simp
  with ti have ir: "images s' ! r = images s ! r" by simp
  from assms(2) have "tensors s' ! priv_px (images s ! r)
      = take (length (tensors s)) (tensors s') ! priv_px (images s ! r)" by simp
  with tt have "tensors s' ! priv_px (images s ! r) = tensors s ! priv_px (images s ! r)" by simp
  with ir ti tt y c show ?thesis by simp
qed

theorem clone_isolation_witness:
  "0 < length (images store1) \<and> priv_px (images store1 ! 0) < length (tensors store1) \<and>
   priv_logit_px (images store1 ! 0) = None \<and> priv_flow (images store1 ! 0) = None \<and>
   priv_affine_mat (images store1 ! 0) = None \<and>
   apply_tfms F_rejecting [Transform_call_deferred flip_lr (PFloat 1) True []] 0 True [] SizeNone []
     store1 rng_half = Inr (1, store1_after, rng_half) \<and>
   images store1_after ! 0 = images store1 ! 0 \<and>
   tensors store1_after ! priv_px (images store1_after ! 0) = tensors store1 ! priv_px (images store1 ! 0)"
proof -
  have h: "0 < length (images store1)" "priv_px (images store1 ! 0) < length (tensors store1)"
    "priv_logit_px (images store1 ! 0) = None" "priv_flow (images store1 ! 0) = None"
    "priv_affine_mat (images store1 ! 0) = None"
    by (simp_all add: store1_def clean_image_def)
  from clone_isolation [OF h apply_flip_store1] h apply_flip_store1 show ?thesis by blast
qed

end
